theory Spec2Isabelle
  imports Main "HOL-Library.Product_Lexorder" "HOL-Library.Multiset"
begin

section \<open>Data model\<close>

text \<open>
  Modelled from the spec: the table declarations of \<^verbatim>\<open>@/lib/db/schema\<close> and the store
  behind \<^verbatim>\<open>@/lib/db\<close>, which are not among the sources. The columns are those of the data
  model of the specification and of the rows the routers write and read. A table is the
  list of its rows in insertion order; \<^verbatim>\<open>.get()\<close> returns the first row a query selects.
  Row ids are integers. Money (\<^verbatim>\<open>balance\<close>, \<^verbatim>\<open>amount\<close>) is a JavaScript number; the
  model is parametric in the number type \<open>'m\<close> and uses only its \<open>+\<close>, \<open>0\<close> and \<open><\<close>,
  so that nothing is assumed of the arithmetic of the store.
  Times are integers: milliseconds for \<^verbatim>\<open>Date.now()\<close>, and the value the store orders
  by for \<^verbatim>\<open>createdAt\<close>. Field names carry the table's prefix, since record fields
  share one name space.
\<close>

datatype accountType = "checking" | savings

datatype fundingType = card | bank

datatype code = UNAUTHORIZED | FORBIDDEN | CONFLICT | NOT_FOUND | BAD_REQUEST
  | INTERNAL_SERVER_ERROR

text \<open>
  What a procedure call can throw: a \<^verbatim>\<open>TRPCError\<close> with its code and message (the
  message is absent where the source gives none), the rejection of the input by the zod
  schema of the procedure, the failure of a store statement, or the rejection of a token
  by \<^verbatim>\<open>jwt.verify\<close>.
\<close>

datatype error = TRPCError code "string option" | ZodError | StoreFailure | JsonWebTokenError

text \<open>The columns of a user row; \<^verbatim>\<open>password\<close> and \<^verbatim>\<open>ssn\<close> hold bcrypt hashes.\<close>

record user =
  u_id :: int
  u_email :: string
  u_password :: string
  u_firstName :: string
  u_lastName :: string
  u_phoneNumber :: string
  u_dateOfBirth :: string
  u_ssn :: string
  u_address :: string
  u_city :: string
  u_state :: string
  u_zipCode :: string

text \<open>
  \<^verbatim>\<open>expiresAt\<close> is an ISO string column, read only through
  \<^verbatim>\<open>new Date(session.expiresAt).getTime()\<close>: the field holds that reading, \<open>Some\<close> of the
  milliseconds, or \<open>None\<close> for a string that is no date (\<^verbatim>\<open>NaN\<close>).
\<close>

record session =
  s_userId :: int
  s_token :: string
  s_expiresAt :: "int option"

record 'm account =
  acc_id :: int
  acc_userId :: int
  acc_accountNumber :: string
  acc_accountType :: accountType
  acc_balance :: 'm
  acc_status :: string
  acc_createdAt :: int

record 'm transaction_row =
  tx_id :: int
  tx_accountId :: int
  tx_type :: string
  tx_amount :: 'm
  tx_description :: string
  tx_status :: string
  tx_createdAt :: int
  tx_processedAt :: int

record 'm store =
  users :: "user list"
  sessions :: "session list"
  accounts :: "'m account list"
  transactions :: "'m transaction_row list"

text \<open>The context a procedure receives: \<^verbatim>\<open>ctx.user\<close>, \<open>None\<close> for an anonymous caller.\<close>

record Context =
  ctx_user :: "user option"

text \<open>
  Modelled from the spec: the id the store gives an inserted row. Ids are unique and
  immutable; an integer primary key gets one more than the largest id of the table.
\<close>

definition next_id :: "int list \<Rightarrow> int" where
  "next_id ids = fold max ids 0 + 1"

section \<open>The card checksum\<close>

text \<open>\<^verbatim>\<open>/\D/\<close> matches every character that is not one of \<^verbatim>\<open>0\<close> to \<^verbatim>\<open>9\<close>.\<close>

definition is_digit :: "char \<Rightarrow> bool" where
  "is_digit c = (c \<in> set ''0123456789'')"

text \<open>\<^verbatim>\<open>parseInt(c, 10)\<close> on a one-digit string.\<close>

definition parseInt :: "char \<Rightarrow> nat" where
  "parseInt c = of_char c - 48"

text \<open>
  The loop \<^verbatim>\<open>for (let i = digits.length - 1; i >= 0; i--)\<close> of \<^verbatim>\<open>isValidCardNumber\<close>;
  the second argument is \<open>i + 1\<close>, the third the variable \<^verbatim>\<open>sum\<close>.
\<close>

fun luhn_loop :: "string \<Rightarrow> nat \<Rightarrow> nat \<Rightarrow> bool \<Rightarrow> nat" where
  "luhn_loop digits 0 acc shouldDouble = acc"
| "luhn_loop digits (Suc i) acc shouldDouble =
     (let digit = parseInt (digits ! i);
          digit = (if shouldDouble
                   then (let digit = digit * 2 in if digit > 9 then digit - 9 else digit)
                   else digit)
      in luhn_loop digits i (acc + digit) (\<not> shouldDouble))"

definition isValidCardNumber :: "string \<Rightarrow> bool" where
  "isValidCardNumber cardNumber =
     (let digits = filter is_digit cardNumber
      in luhn_loop digits (length digits) 0 False mod 10 = 0)"

text \<open>
  The Luhn algorithm in the words of its definition, on a list of digit values: counting
  positions from the rightmost digit, which has position 0, every digit at an odd position
  is doubled, 9 is subtracted from a double above 9, and the number is valid when the sum
  of all the resulting values is a multiple of 10.
\<close>

definition luhn_value :: "nat \<Rightarrow> nat \<Rightarrow> nat" where
  "luhn_value pos d = (if odd pos then (if 2 * d > 9 then 2 * d - 9 else 2 * d) else d)"

definition luhn_spec :: "nat list \<Rightarrow> bool" where
  "luhn_spec ds = ((\<Sum>pos < length ds. luhn_value pos (rev ds ! pos)) mod 10 = 0)"

section \<open>fundAccount\<close>

record fundingSource =
  fs_type :: fundingType
  fs_accountNumber :: string
  fs_routingNumber :: "string option"

record 'm fundInput =
  fi_accountId :: int
  fi_amount :: 'm
  fi_fundingSource :: fundingSource

record 'm fundResult =
  transactionId :: int
  newBalance :: 'm

text \<open>
  The four store statements of \<^verbatim>\<open>fundAccount\<close>, in the order they are awaited. A call is
  run against a predicate that tells which of them throw, so that the failure semantics of
  the sequence can be stated; a statement that throws leaves the store as it was before it.
\<close>

datatype fundStatement = SelectAccount | InsertTransaction | UpdateBalance | SelectUpdated

definition describe :: "fundingType \<Rightarrow> string" where
  "describe t = ''Funding from '' @ (case t of card \<Rightarrow> ''card'' | bank \<Rightarrow> ''bank'')"

text \<open>
  \<^verbatim>\<open>UPDATE accounts SET balance = balance + amount WHERE id = accountId\<close>: the store adds
  to the balance each selected row holds.
\<close>

definition add_balance :: "int \<Rightarrow> 'm::plus \<Rightarrow> 'm account list \<Rightarrow> 'm account list" where
  "add_balance accountId amount rows =
     map (\<lambda>a. if acc_id a = accountId then a\<lparr>acc_balance := acc_balance a + amount\<rparr> else a) rows"

text \<open>
  The procedure: the middleware of \<^verbatim>\<open>protectedProcedure\<close>, the input schema
  (\<^verbatim>\<open>amount: z.number().positive()\<close>; the other fields are typed), then the mutation.
  \<open>clock\<close> is the time of the call, read by the store for \<^verbatim>\<open>createdAt\<close> and by
  \<^verbatim>\<open>new Date()\<close> for \<^verbatim>\<open>processedAt\<close>. \<^verbatim>\<open>parseFloat(input.amount.toString())\<close> gives
  back the number it is given. The result carries the id of the row that
  \<^verbatim>\<open>returning({ id: transactions.id })\<close> yields.
\<close>

definition fundAccount ::
  "(fundStatement \<Rightarrow> bool) \<Rightarrow> int \<Rightarrow> 'm::{plus,zero,ord} store \<Rightarrow> Context \<Rightarrow> 'm fundInput
     \<Rightarrow> (error + 'm fundResult) \<times> 'm store" where
  "fundAccount fails clock db ctx input =
     (case ctx_user ctx of
        None \<Rightarrow> (Inl (TRPCError UNAUTHORIZED None), db)
      | Some caller \<Rightarrow>
          if \<not> 0 < fi_amount input then (Inl ZodError, db)
          else let amount = fi_amount input in
          if fails SelectAccount then (Inl StoreFailure, db)
          else
            (case find (\<lambda>a. acc_id a = fi_accountId input \<and> acc_userId a = u_id caller)
                    (accounts db) of
               None \<Rightarrow> (Inl (TRPCError NOT_FOUND (Some ''Account not found'')), db)
             | Some account \<Rightarrow>
                 if acc_status account \<noteq> ''active''
                 then (Inl (TRPCError BAD_REQUEST (Some ''Account is not active'')), db)
                 else if fs_type (fi_fundingSource input) = card
                       \<and> \<not> isValidCardNumber (fs_accountNumber (fi_fundingSource input))
                 then (Inl (TRPCError BAD_REQUEST (Some ''Invalid card number'')), db)
                 else if fails InsertTransaction then (Inl StoreFailure, db)
                 else
                   let newId = next_id (map tx_id (transactions db));
                       db1 = db\<lparr>transactions := transactions db @
                               [\<lparr>tx_id = newId,
                                 tx_accountId = fi_accountId input,
                                 tx_type = ''deposit'',
                                 tx_amount = amount,
                                 tx_description = describe (fs_type (fi_fundingSource input)),
                                 tx_status = ''completed'',
                                 tx_createdAt = clock,
                                 tx_processedAt = clock\<rparr>]\<rparr>
                   in if fails UpdateBalance then (Inl StoreFailure, db1)
                   else
                     let db2 = db1\<lparr>accounts :=
                                 add_balance (fi_accountId input) amount (accounts db1)\<rparr>
                     in if fails SelectUpdated then (Inl StoreFailure, db2)
                     else
                       let updatedAccount =
                             find (\<lambda>a. acc_id a = fi_accountId input) (accounts db2)
                       in (Inr \<lparr>transactionId = newId,
                                newBalance = (case updatedAccount of
                                                Some a \<Rightarrow> acc_balance a
                                              | None \<Rightarrow> acc_balance account)\<rparr>,
                           db2)))"

section \<open>The libraries\<close>

text \<open>The input of \<^verbatim>\<open>signup\<close>, which its zod schema parses.\<close>

record signupInput =
  su_email :: string
  su_password :: string
  su_firstName :: string
  su_lastName :: string
  su_phoneNumber :: string
  su_dateOfBirth :: string
  su_ssn :: string
  su_address :: string
  su_city :: string
  su_state :: string
  su_zipCode :: string

text \<open>
  The libraries the routers call, as functions of what they are given and of the time of
  the call: \<^verbatim>\<open>jwt.sign\<close> of a user id, \<^verbatim>\<open>jwt.verify\<close> (the user id of the payload, \<open>None\<close>
  when it throws), \<^verbatim>\<open>bcrypt.compare\<close>, \<^verbatim>\<open>bcrypt.hash\<close>, the \<^verbatim>\<open>email()\<close> check of zod, the
  zod schema of \<^verbatim>\<open>signup\<close> (the parsed input with its transformations applied, \<open>None\<close> when
  the schema rejects the input), and \<^verbatim>\<open>setDate(getDate() + 7)\<close> on a date.
\<close>

record library =
  jwt_sign :: "int \<Rightarrow> int \<Rightarrow> string"
  jwt_verify :: "string \<Rightarrow> int \<Rightarrow> int option"
  bcrypt_compare :: "string \<Rightarrow> string \<Rightarrow> bool"
  bcrypt_hash :: "string \<Rightarrow> string"
  zod_email :: "string \<Rightarrow> bool"
  zod_signup :: "signupInput \<Rightarrow> int \<Rightarrow> signupInput option"
  plus_7_days :: "int \<Rightarrow> int"

section \<open>createContext\<close>

definition earlyExpiryWindow :: int where
  "earlyExpiryWindow = 60000"

text \<open>
  The body of the \<^verbatim>\<open>try\<close> block. A comparison with \<^verbatim>\<open>NaN\<close> is false. A query that
  selects no row gives \<^verbatim>\<open>undefined\<close>, which is \<open>None\<close> like \<^verbatim>\<open>null\<close>.
\<close>

definition createContext_try ::
  "library \<Rightarrow> int \<Rightarrow> 'm store \<Rightarrow> string \<Rightarrow> (error + user option) \<times> 'm store" where
  "createContext_try lib now db token =
     (case jwt_verify lib token now of
        None \<Rightarrow> (Inl JsonWebTokenError, db)
      | Some userId \<Rightarrow>
          (case find (\<lambda>s. s_token s = token) (sessions db) of
             None \<Rightarrow> (Inr None, db)
           | Some session \<Rightarrow>
               let expiresAtMs = s_expiresAt session in
               if (case expiresAtMs of None \<Rightarrow> False | Some e \<Rightarrow> e - now \<le> earlyExpiryWindow)
               then (Inl (TRPCError UNAUTHORIZED (Some ''Session expired'')),
                     db\<lparr>sessions := filter (\<lambda>s. s_token s \<noteq> token) (sessions db)\<rparr>)
               else if (case expiresAtMs of None \<Rightarrow> False | Some e \<Rightarrow> e > now)
               then (Inr (find (\<lambda>u. u_id u = userId) (users db)), db)
               else (Inr None, db)))"

text \<open>
  \<open>token\<close> is \<^verbatim>\<open>cookiesObj.session\<close>, \<open>None\<close> when the cookie is absent; the empty string is
  falsy too. The \<^verbatim>\<open>catch\<close> clause ignores whatever the block throws and keeps what the
  block did to the store.
\<close>

definition createContext ::
  "library \<Rightarrow> int \<Rightarrow> 'm store \<Rightarrow> string option \<Rightarrow> Context \<times> 'm store" where
  "createContext lib now db token =
     (case token of
        None \<Rightarrow> (\<lparr>ctx_user = None\<rparr>, db)
      | Some token \<Rightarrow>
          if token = [] then (\<lparr>ctx_user = None\<rparr>, db)
          else
            (case createContext_try lib now db token of
               (Inl error, db') \<Rightarrow> (\<lparr>ctx_user = None\<rparr>, db')
             | (Inr user, db') \<Rightarrow> (\<lparr>ctx_user = user\<rparr>, db')))"

section \<open>login\<close>

record loginInput =
  li_email :: string
  li_password :: string

text \<open>
  The result of \<^verbatim>\<open>login\<close> and of \<^verbatim>\<open>signup\<close>: the user row, returned without its password
  and kept here by its id and email, and the token. The \<^verbatim>\<open>Set-Cookie\<close> header is written
  to the response, not to the store.
\<close>

record loginResult =
  lr_userId :: int
  lr_email :: string
  lr_token :: string

definition login ::
  "library \<Rightarrow> int \<Rightarrow> 'm store \<Rightarrow> loginInput \<Rightarrow> (error + loginResult) \<times> 'm store" where
  "login lib now db input =
     (if \<not> zod_email lib (li_email input) then (Inl ZodError, db)
      else
        (case find (\<lambda>u. u_email u = li_email input) (users db) of
           None \<Rightarrow> (Inl (TRPCError UNAUTHORIZED (Some ''Invalid credentials'')), db)
         | Some user \<Rightarrow>
             if \<not> bcrypt_compare lib (li_password input) (u_password user)
             then (Inl (TRPCError UNAUTHORIZED (Some ''Invalid credentials'')), db)
             else
               let db1 = db\<lparr>sessions := filter (\<lambda>s. s_userId s \<noteq> u_id user) (sessions db)\<rparr>;
                   token = jwt_sign lib (u_id user) now;
                   expiresAt = plus_7_days lib now;
                   db2 = db1\<lparr>sessions := sessions db1 @
                           [\<lparr>s_userId = u_id user, s_token = token,
                             s_expiresAt = Some expiresAt\<rparr>]\<rparr>
               in (Inr \<lparr>lr_userId = u_id user, lr_email = u_email user, lr_token = token\<rparr>,
                   db2)))"

section \<open>signup\<close>

definition signup ::
  "library \<Rightarrow> int \<Rightarrow> 'm store \<Rightarrow> signupInput \<Rightarrow> (error + loginResult) \<times> 'm store" where
  "signup lib now db raw =
     (case zod_signup lib raw now of
        None \<Rightarrow> (Inl ZodError, db)
      | Some input \<Rightarrow>
          (case find (\<lambda>u. u_email u = su_email input) (users db) of
             Some existingUser \<Rightarrow> (Inl (TRPCError CONFLICT (Some ''User already exists'')), db)
           | None \<Rightarrow>
               let hashedPassword = bcrypt_hash lib (su_password input);
                   hashedSSN = bcrypt_hash lib (su_ssn input);
                   db1 = db\<lparr>users := users db @
                           [\<lparr>u_id = next_id (map u_id (users db)),
                             u_email = su_email input,
                             u_password = hashedPassword,
                             u_firstName = su_firstName input,
                             u_lastName = su_lastName input,
                             u_phoneNumber = su_phoneNumber input,
                             u_dateOfBirth = su_dateOfBirth input,
                             u_ssn = hashedSSN,
                             u_address = su_address input,
                             u_city = su_city input,
                             u_state = su_state input,
                             u_zipCode = su_zipCode input\<rparr>]\<rparr>
               in (case find (\<lambda>u. u_email u = su_email input) (users db1) of
                     None \<Rightarrow>
                       (Inl (TRPCError INTERNAL_SERVER_ERROR (Some ''Failed to create user'')),
                        db1)
                   | Some user \<Rightarrow>
                       let token = jwt_sign lib (u_id user) now;
                           expiresAt = plus_7_days lib now;
                           db2 = db1\<lparr>sessions := sessions db1 @
                                   [\<lparr>s_userId = u_id user, s_token = token,
                                     s_expiresAt = Some expiresAt\<rparr>]\<rparr>
                       in (Inr \<lparr>lr_userId = u_id user, lr_email = u_email user,
                                lr_token = token\<rparr>,
                           db2))))"

section \<open>createAccount\<close>

text \<open>
  The loop \<^verbatim>\<open>while (!isUnique)\<close>. Its second argument lists the numbers that the
  successive calls of \<^verbatim>\<open>generateAccountNumber\<close> return; the result is \<open>None\<close> when every
  one of them is taken, the loop then being still at work.
\<close>

fun generate_unique :: "'m account list \<Rightarrow> string list \<Rightarrow> string option" where
  "generate_unique rows [] = None"
| "generate_unique rows (accountNumber # later) =
     (case find (\<lambda>a. acc_accountNumber a = accountNumber) rows of
        None \<Rightarrow> Some accountNumber
      | Some existing \<Rightarrow> generate_unique rows later)"

definition accountType_name :: "accountType \<Rightarrow> string" where
  "accountType_name t = (case t of checking \<Rightarrow> ''checking'' | savings \<Rightarrow> ''savings'')"

definition createAccount ::
  "string list \<Rightarrow> int \<Rightarrow> 'm::zero store \<Rightarrow> Context \<Rightarrow> accountType
     \<Rightarrow> ((error + 'm account) \<times> 'm store) option" where
  "createAccount generated clock db ctx accountType =
     (case ctx_user ctx of
        None \<Rightarrow> Some (Inl (TRPCError UNAUTHORIZED None), db)
      | Some caller \<Rightarrow>
          (case find (\<lambda>a. acc_userId a = u_id caller \<and> acc_accountType a = accountType)
                  (accounts db) of
             Some existingAccount \<Rightarrow>
               Some (Inl (TRPCError CONFLICT
                       (Some (''You already have a '' @ accountType_name accountType
                              @ '' account''))), db)
           | None \<Rightarrow>
               (case generate_unique (accounts db) generated of
                  None \<Rightarrow> None
                | Some accountNumber \<Rightarrow>
                    let db1 = db\<lparr>accounts := accounts db @
                                [\<lparr>acc_id = next_id (map acc_id (accounts db)),
                                  acc_userId = u_id caller,
                                  acc_accountNumber = accountNumber,
                                  acc_accountType = accountType,
                                  acc_balance = 0,
                                  acc_status = ''active'',
                                  acc_createdAt = clock\<rparr>]\<rparr>
                    in Some
                         (case find (\<lambda>a. acc_accountNumber a = accountNumber) (accounts db1) of
                            Some account \<Rightarrow> Inr account
                          | None \<Rightarrow>
                              Inr \<lparr>acc_id = 0,
                                   acc_userId = u_id caller,
                                   acc_accountNumber = accountNumber,
                                   acc_accountType = accountType,
                                   acc_balance = 0,
                                   acc_status = ''pending'',
                                   acc_createdAt = clock\<rparr>,
                          db1))))"

section \<open>getTransactions\<close>

text \<open>A row of the query: the columns of the transaction and the joined \<^verbatim>\<open>accountType\<close>.\<close>

record 'm joined_row = "'m transaction_row" +
  accountType :: "accountType option"

text \<open>
  \<^verbatim>\<open>FROM transactions LEFT JOIN accounts ON transactions.accountId = accounts.id\<close>: a row
  for every account that matches a transaction, and one row with a null where none does.
\<close>

definition leftJoin ::
  "'m transaction_row list \<Rightarrow> 'm account list \<Rightarrow> 'm joined_row list" where
  "leftJoin txs accts =
     concat (map (\<lambda>t.
       (case filter (\<lambda>a. tx_accountId t = acc_id a) accts of
          [] \<Rightarrow> [transaction_row.extend t (joined_row.fields None)]
        | matching \<Rightarrow>
            map (\<lambda>a. transaction_row.extend t (joined_row.fields (Some (acc_accountType a))))
              matching)) txs)"

text \<open>\<^verbatim>\<open>ORDER BY createdAt DESC, id DESC\<close>.\<close>

definition orderBy_desc :: "'m joined_row list \<Rightarrow> 'm joined_row list" where
  "orderBy_desc rows = rev (sort_key (\<lambda>r. (tx_createdAt r, tx_id r)) rows)"

text \<open>The loop that looks the account of every row up again and overwrites the joined field.\<close>

definition enrich :: "'m account list \<Rightarrow> 'm joined_row \<Rightarrow> 'm joined_row" where
  "enrich accts transaction =
     (let accountDetails = find (\<lambda>a. acc_id a = tx_accountId transaction) accts
      in transaction\<lparr>accountType := map_option acc_accountType accountDetails\<rparr>)"

definition getTransactions ::
  "'m store \<Rightarrow> Context \<Rightarrow> int \<Rightarrow> (error + 'm joined_row list) \<times> 'm store" where
  "getTransactions db ctx accountId =
     (case ctx_user ctx of
        None \<Rightarrow> (Inl (TRPCError UNAUTHORIZED None), db)
      | Some caller \<Rightarrow>
          (case find (\<lambda>a. acc_id a = accountId \<and> acc_userId a = u_id caller) (accounts db) of
             None \<Rightarrow> (Inl (TRPCError NOT_FOUND (Some ''Account not found'')), db)
           | Some account \<Rightarrow>
               let accountTransactions =
                     orderBy_desc
                       (filter (\<lambda>r. tx_accountId r = accountId)
                          (leftJoin (transactions db) (accounts db)))
               in (Inr (map (enrich (accounts db)) accountTransactions), db)))"

section \<open>A sample store\<close>

text \<open>
  Two users, an account each, four deposits (three of them on the first account, two of
  those created at the same time), with amounts in whole units. The concrete runs below
  are made on it.
\<close>

definition alice :: user where
  "alice = \<lparr>u_id = 1, u_email = ''alice@example.com'', u_password = ''hash-a'',
     u_firstName = ''Alice'', u_lastName = ''Adams'', u_phoneNumber = ''+14155552671'',
     u_dateOfBirth = ''1990-01-01'', u_ssn = ''hash-123456789'', u_address = ''1 Main St'',
     u_city = ''Springfield'', u_state = ''IL'', u_zipCode = ''62701''\<rparr>"

definition bob :: user where
  "bob = \<lparr>u_id = 2, u_email = ''bob@example.com'', u_password = ''hash-b'',
     u_firstName = ''Bob'', u_lastName = ''Brown'', u_phoneNumber = ''+14155552672'',
     u_dateOfBirth = ''1985-05-05'', u_ssn = ''hash-987654321'', u_address = ''2 Oak Ave'',
     u_city = ''Portland'', u_state = ''OR'', u_zipCode = ''97201''\<rparr>"

definition alice_checking :: "int account" where
  "alice_checking = \<lparr>acc_id = 1, acc_userId = 1, acc_accountNumber = ''1000000001'',
     acc_accountType = checking, acc_balance = 100, acc_status = ''active'',
     acc_createdAt = 5\<rparr>"

definition bob_savings :: "int account" where
  "bob_savings = \<lparr>acc_id = 2, acc_userId = 2, acc_accountNumber = ''1000000002'',
     acc_accountType = savings, acc_balance = 70, acc_status = ''active'',
     acc_createdAt = 6\<rparr>"

definition deposit :: "int \<Rightarrow> int \<Rightarrow> int \<Rightarrow> int \<Rightarrow> int transaction_row" where
  "deposit i a amt t = \<lparr>tx_id = i, tx_accountId = a, tx_type = ''deposit'', tx_amount = amt,
     tx_description = ''Funding from bank'', tx_status = ''completed'', tx_createdAt = t,
     tx_processedAt = t\<rparr>"

definition bank_db :: "int store" where
  "bank_db = \<lparr>users = [alice, bob], sessions = [],
     accounts = [alice_checking, bob_savings],
     transactions = [deposit 1 1 10 20, deposit 2 2 70 30, deposit 3 1 40 30,
                     deposit 4 1 50 30]\<rparr>"

definition as_alice :: Context where
  "as_alice = \<lparr>ctx_user = Some alice\<rparr>"

definition fund_50 :: "int fundInput" where
  "fund_50 = \<lparr>fi_accountId = 1, fi_amount = 50,
     fi_fundingSource = \<lparr>fs_type = card, fs_accountNumber = ''4532015112830366'',
       fs_routingNumber = None\<rparr>\<rparr>"

definition fund_bad_card :: "int fundInput" where
  "fund_bad_card = \<lparr>fi_accountId = 1, fi_amount = 50,
     fi_fundingSource = \<lparr>fs_type = card, fs_accountNumber = ''4532015112830367'',
       fs_routingNumber = None\<rparr>\<rparr>"

definition fund_no_digits :: "int fundInput" where
  "fund_no_digits = \<lparr>fi_accountId = 1, fi_amount = 50,
     fi_fundingSource = \<lparr>fs_type = card, fs_accountNumber = ''not a card'',
       fs_routingNumber = None\<rparr>\<rparr>"

definition bank_source :: fundingSource where
  "bank_source = \<lparr>fs_type = bank, fs_accountNumber = ''4532015112830367'',
     fs_routingNumber = Some ''021000021''\<rparr>"

definition no_failure :: "fundStatement \<Rightarrow> bool" where
  "no_failure st = False"

definition update_fails :: "fundStatement \<Rightarrow> bool" where
  "update_fails st = (st = UpdateBalance)"

definition fund_bobs_account :: "int fundInput" where
  "fund_bobs_account = \<lparr>fi_accountId = 2, fi_amount = 50,
     fi_fundingSource = \<lparr>fs_type = card, fs_accountNumber = ''4532015112830366'',
       fs_routingNumber = None\<rparr>\<rparr>"

definition sample_lib :: library where
  "sample_lib = \<lparr>jwt_sign = (\<lambda>userId now. if userId = 1 then ''alice-token'' else ''other-token''),
     jwt_verify = (\<lambda>token now. if token = ''alice-token'' then Some 1 else None),
     bcrypt_compare = (\<lambda>password hash. hash = ''hash-'' @ password),
     bcrypt_hash = (\<lambda>password. ''hash-'' @ password),
     zod_email = (\<lambda>email. CHR ''@'' \<in> set email),
     zod_signup = (\<lambda>input now. if CHR ''@'' \<in> set (su_email input) then Some input else None),
     plus_7_days = (\<lambda>t. t + 604800000)\<rparr>"

definition carol_signup :: signupInput where
  "carol_signup = \<lparr>su_email = ''carol@example.com'', su_password = ''Secret#123'',
     su_firstName = ''Carol'', su_lastName = ''Clark'', su_phoneNumber = ''+14155552673'',
     su_dateOfBirth = ''1992-02-02'', su_ssn = ''111223333'', su_address = ''3 Pine Rd'',
     su_city = ''Austin'', su_state = ''TX'', su_zipCode = ''73301''\<rparr>"

definition expiring_session :: session where
  "expiring_session = \<lparr>s_userId = 1, s_token = ''alice-token'', s_expiresAt = Some 100030000\<rparr>"

definition stale_session :: session where
  "stale_session = \<lparr>s_userId = 1, s_token = ''alice-token'', s_expiresAt = Some 13600000\<rparr>"

definition live_session :: session where
  "live_session = \<lparr>s_userId = 1, s_token = ''alice-token'', s_expiresAt = Some 103600000\<rparr>"

definition alice_savings :: "int account" where
  "alice_savings = \<lparr>acc_id = 3, acc_userId = 1, acc_accountNumber = ''1000000003'',
     acc_accountType = savings, acc_balance = 0, acc_status = ''active'',
     acc_createdAt = 50\<rparr>"


definition bob_session :: session where
  "bob_session = \<lparr>s_userId = 2, s_token = ''bob-token'', s_expiresAt = Some 103600000\<rparr>"

definition alice_login :: loginInput where
  "alice_login = \<lparr>li_email = ''alice@example.com'', li_password = ''a''\<rparr>"

lemmas sample = alice_def bob_def alice_checking_def bob_savings_def deposit_def bank_db_def
  as_alice_def fund_50_def fund_bad_card_def fund_no_digits_def bank_source_def
  no_failure_def update_fails_def
  fund_bobs_account_def
  sample_lib_def carol_signup_def expiring_session_def stale_session_def live_session_def
  alice_savings_def bob_session_def alice_login_def

section \<open>Facts about the store\<close>

lemma fold_max_ge: "b \<le> fold max ids (b::int)"
  by (induction ids arbitrary: b) (auto intro: order_trans [OF max.cobounded2])

lemma fold_max_mem: "x \<in> set ids \<Longrightarrow> x \<le> fold max ids (b::int)"
proof (induction ids arbitrary: b)
  case Nil
  then show ?case by simp
next
  case (Cons y ys)
  show ?case
  proof (cases "x = y")
    case True
    have "y \<le> max y b" by simp
    also have "\<dots> \<le> fold max ys (max y b)" by (rule fold_max_ge)
    finally show ?thesis using True by simp
  next
    case False
    with Cons show ?thesis by simp
  qed
qed

lemma next_id_fresh: "next_id ids \<notin> set ids"
proof
  assume "next_id ids \<in> set ids"
  then have "next_id ids \<le> fold max ids 0" by (rule fold_max_mem)
  then show False by (simp add: next_id_def)
qed

lemma find_add_balance:
  "find (\<lambda>a. acc_id a = i) (add_balance i amt rows)
     = map_option (\<lambda>a. a\<lparr>acc_balance := acc_balance a + amt\<rparr>) (find (\<lambda>a. acc_id a = i) rows)"
  by (induction rows) (simp_all add: add_balance_def)

lemma find_owned_by_id:
  "distinct (map acc_id rows) \<Longrightarrow>
   find (\<lambda>a. acc_id a = i \<and> P a) rows = Some account \<Longrightarrow>
   find (\<lambda>a. acc_id a = i) rows = Some account"
proof (induction rows)
  case Nil
  then show ?case by simp
next
  case (Cons r rows)
  show ?case
  proof (cases "acc_id r = i")
    case True
    show ?thesis
    proof (cases "P r")
      case True
      with \<open>acc_id r = i\<close> Cons.prems show ?thesis by simp
    next
      case False
      with Cons.prems have "find (\<lambda>a. acc_id a = i \<and> P a) rows = Some account" by simp
      then have "account \<in> set rows" and "acc_id account = i"
        by (auto simp: find_Some_iff)
      then have "acc_id r \<in> acc_id ` set rows" using True by (simp add: image_iff) blast
      with Cons.prems(1) show ?thesis by simp
    qed
  next
    case False
    with Cons show ?thesis by simp
  qed
qed

section \<open>The checksum is the Luhn algorithm\<close>

lemma luhn_loop_step:
  "luhn_loop digits (Suc i) acc (odd pos) =
     luhn_loop digits i (acc + luhn_value pos (parseInt (digits ! i))) (\<not> odd pos)"
  by (simp add: Let_def luhn_value_def mult.commute)

lemma luhn_loop_sum:
  "n \<le> length digits \<Longrightarrow>
   luhn_loop digits n acc (odd (length digits - n)) =
     acc + (\<Sum>i < n. luhn_value (length digits - 1 - i) (parseInt (digits ! i)))"
proof (induction n arbitrary: acc)
  case 0
  then show ?case by simp
next
  case (Suc n)
  let ?v = "luhn_value (length digits - Suc n) (parseInt (digits ! n))"
  have par: "(\<not> odd (length digits - Suc n)) = odd (length digits - n)"
    using Suc.prems by (simp add: Suc_diff_Suc)
  have "luhn_loop digits (Suc n) acc (odd (length digits - Suc n))
      = luhn_loop digits n (acc + ?v) (odd (length digits - n))"
    unfolding luhn_loop_step par ..
  also have "\<dots> = acc + ?v + (\<Sum>i < n. luhn_value (length digits - 1 - i) (parseInt (digits ! i)))"
    using Suc.IH [of "acc + ?v"] Suc.prems by simp
  finally show ?case by simp
qed

lemma isValidCardNumber_luhn:
  "isValidCardNumber s = luhn_spec (map parseInt (filter is_digit s))"
proof -
  define ds where "ds = filter is_digit s"
  have "(\<Sum>i < length ds. luhn_value (length ds - 1 - i) (parseInt (ds ! i)))
      = (\<Sum>pos < length ds. luhn_value pos (rev (map parseInt ds) ! pos))"
    by (rule sum.reindex_bij_witness
          [where i = "\<lambda>p. length ds - 1 - p" and j = "\<lambda>i. length ds - 1 - i"])
       (auto simp: rev_nth)
  then show ?thesis
    using luhn_loop_sum [of "length ds" ds 0]
    by (simp add: isValidCardNumber_def luhn_spec_def ds_def [symmetric] Let_def)
qed

lemma valid_number: "isValidCardNumber ''4532015112830366''"
  by (simp add: isValidCardNumber_def is_digit_def parseInt_def)

lemma invalid_number: "\<not> isValidCardNumber ''4532015112830367''"
  by (simp add: isValidCardNumber_def is_digit_def parseInt_def)

section \<open>fundAccount\<close>

lemma fundAccount_card_rejected:
  assumes "ctx_user ctx = Some caller" and "0 < fi_amount input" and "\<not> fails SelectAccount"
      and "find (\<lambda>a. acc_id a = fi_accountId input \<and> acc_userId a = u_id caller) (accounts db)
             = Some account"
      and "acc_status account = ''active''"
      and "fs_type (fi_fundingSource input) = card"
      and "\<not> isValidCardNumber (fs_accountNumber (fi_fundingSource input))"
  shows "fundAccount fails clock db ctx input
           = (Inl (TRPCError BAD_REQUEST (Some ''Invalid card number'')), db)"
  using assms by (simp add: fundAccount_def)

lemma fundAccount_bank_any_number:
  assumes "fs_type src = bank"
  shows "fundAccount fails clock db ctx (input\<lparr>fi_fundingSource := src\<lparr>fs_accountNumber := n\<rparr>\<rparr>)
       = fundAccount fails clock db ctx (input\<lparr>fi_fundingSource := src\<rparr>)"
  using assms by (simp add: fundAccount_def cong: if_cong option.case_cong)

lemma fundAccount_valid_not_rejected:
  assumes "isValidCardNumber (fs_accountNumber (fi_fundingSource input))"
  shows "fst (fundAccount fails clock db ctx input)
           \<noteq> Inl (TRPCError BAD_REQUEST (Some ''Invalid card number''))"
  using assms unfolding fundAccount_def Let_def
  by (simp split: option.splits)

lemma fundAccount_succeeds:
  assumes "ctx_user ctx = Some caller" and "0 < fi_amount input"
      and "\<forall>st. \<not> fails st"
      and "find (\<lambda>a. acc_id a = fi_accountId input \<and> acc_userId a = u_id caller) (accounts db)
             = Some account"
      and "acc_status account = ''active''"
      and "isValidCardNumber (fs_accountNumber (fi_fundingSource input))"
  shows "\<exists>res db'. fundAccount fails clock db ctx input = (Inr res, db')"
  using assms unfolding fundAccount_def Let_def by simp

text \<open>
  C8. The checksum of \<^verbatim>\<open>fundAccount\<close> is the Luhn algorithm: 4532015112830366 passes,
  4532015112830367 fails, and the checksum of any string is the Luhn sum of its digits; a
  call with a card whose number fails the checksum, by a caller who owns the active account,
  is rejected with \<^verbatim>\<open>BAD_REQUEST\<close> and leaves the store as it was; for a bank source the
  outcome of the call does not depend on the account number.
\<close>

theorem card_checksum_is_luhn:
  "isValidCardNumber ''4532015112830366''
   \<and> \<not> isValidCardNumber ''4532015112830367''
   \<and> isValidCardNumber s = luhn_spec (map parseInt (filter is_digit s))
   \<and> (ctx_user ctx = Some caller \<and> 0 < fi_amount input \<and> \<not> fails SelectAccount
        \<and> find (\<lambda>a. acc_id a = fi_accountId input \<and> acc_userId a = u_id caller) (accounts db)
             = Some account
        \<and> acc_status account = ''active''
        \<and> fs_type (fi_fundingSource input) = card
        \<and> \<not> isValidCardNumber (fs_accountNumber (fi_fundingSource input))
      \<longrightarrow> fundAccount fails clock db ctx input
             = (Inl (TRPCError BAD_REQUEST (Some ''Invalid card number'')), db))
   \<and> (fs_type src = bank
      \<longrightarrow> fundAccount fails clock db ctx (input\<lparr>fi_fundingSource := src\<lparr>fs_accountNumber := n\<rparr>\<rparr>)
            = fundAccount fails clock db ctx (input\<lparr>fi_fundingSource := src\<rparr>))"
  using valid_number invalid_number isValidCardNumber_luhn [of s]
    fundAccount_card_rejected [where ctx = ctx and caller = caller and input = input
      and fails = fails and db = db and account = account and clock = clock]
    fundAccount_bank_any_number [where src = src and fails = fails and clock = clock
      and db = db and ctx = ctx and input = input and n = n]
  by blast

theorem card_checksum_is_luhn_witness:
  "fundAccount no_failure 99 bank_db as_alice fund_bad_card
     = (Inl (TRPCError BAD_REQUEST (Some ''Invalid card number'')), bank_db)
   \<and> fst (fundAccount no_failure 99 bank_db as_alice
            (fund_bad_card\<lparr>fi_fundingSource := bank_source\<rparr>))
     = Inr \<lparr>transactionId = 5, newBalance = 150\<rparr>
   \<and> fundAccount no_failure 99 bank_db as_alice
        (fund_bad_card\<lparr>fi_fundingSource := bank_source\<lparr>fs_accountNumber := ''no digits''\<rparr>\<rparr>)
     = fundAccount no_failure 99 bank_db as_alice
         (fund_bad_card\<lparr>fi_fundingSource := bank_source\<rparr>)"
proof -
  have card: "fs_type (fi_fundingSource fund_bad_card) = card"
    and bank: "fs_type bank_source = bank"
    and bad: "\<not> isValidCardNumber (fs_accountNumber (fi_fundingSource fund_bad_card))"
    by (simp_all add: sample isValidCardNumber_def is_digit_def parseInt_def)
  have pre: "ctx_user as_alice = Some alice" "0 < fi_amount fund_bad_card"
    "\<not> no_failure SelectAccount"
    "find (\<lambda>a. acc_id a = fi_accountId fund_bad_card \<and> acc_userId a = u_id alice)
       (accounts bank_db) = Some alice_checking"
    "acc_status alice_checking = ''active''"
    by (simp_all add: sample)
  have run: "fst (fundAccount no_failure 99 bank_db as_alice
                    (fund_bad_card\<lparr>fi_fundingSource := bank_source\<rparr>))
               = Inr \<lparr>transactionId = 5, newBalance = 150\<rparr>"
    by (simp add: fundAccount_def sample next_id_def add_balance_def)
  show ?thesis
    using card bank bad pre run
      card_checksum_is_luhn [where ctx = as_alice and caller = alice
        and input = fund_bad_card and fails = no_failure and db = bank_db
        and account = alice_checking and clock = 99 and src = bank_source
        and n = "''no digits''"]
    by simp
qed

text \<open>
  C10. A string without a decimal digit, the empty string among them, passes the checksum:
  no digit is left, the sum is 0. A \<^verbatim>\<open>fundAccount\<close> call that carries it as a card number
  is never rejected as an invalid card number, and it goes through when the caller owns the
  active account and no store statement fails.
\<close>

theorem digit_free_number_passes:
  assumes "\<forall>c \<in> set cardNumber. \<not> is_digit c"
  shows "filter is_digit cardNumber = []
       \<and> luhn_loop (filter is_digit cardNumber) (length (filter is_digit cardNumber)) 0 False = 0
       \<and> isValidCardNumber cardNumber
       \<and> (fs_accountNumber (fi_fundingSource input) = cardNumber
            \<longrightarrow> fst (fundAccount fails clock db ctx input)
                  \<noteq> Inl (TRPCError BAD_REQUEST (Some ''Invalid card number'')))
       \<and> (fs_accountNumber (fi_fundingSource input) = cardNumber
            \<and> ctx_user ctx = Some caller \<and> 0 < fi_amount input \<and> (\<forall>st. \<not> fails st)
            \<and> find (\<lambda>a. acc_id a = fi_accountId input \<and> acc_userId a = u_id caller)
                  (accounts db) = Some account
            \<and> acc_status account = ''active''
            \<longrightarrow> (\<exists>res db'. fundAccount fails clock db ctx input = (Inr res, db')))"
proof -
  have empty: "filter is_digit cardNumber = []"
    using assms by (simp add: filter_empty_conv)
  then have valid: "isValidCardNumber cardNumber"
    by (simp add: isValidCardNumber_def)
  show ?thesis
    using empty valid fundAccount_valid_not_rejected [where input = input and fails = fails
      and clock = clock and db = db and ctx = ctx]
      fundAccount_succeeds [where ctx = ctx and caller = caller and input = input
      and fails = fails and db = db and account = account and clock = clock]
    by auto
qed

theorem digit_free_number_passes_witness:
  "filter is_digit ''not a card'' = []
   \<and> isValidCardNumber ''not a card''
   \<and> fst (fundAccount no_failure 99 bank_db as_alice fund_no_digits)
       \<noteq> Inl (TRPCError BAD_REQUEST (Some ''Invalid card number''))
   \<and> (\<exists>res db'. fundAccount no_failure 99 bank_db as_alice fund_no_digits = (Inr res, db'))"
proof -
  have free: "\<forall>c \<in> set ''not a card''. \<not> is_digit c"
    by (simp add: is_digit_def)
  have pre: "fs_accountNumber (fi_fundingSource fund_no_digits) = ''not a card''"
    "ctx_user as_alice = Some alice" "0 < fi_amount fund_no_digits"
    "\<forall>st. \<not> no_failure st"
    "find (\<lambda>a. acc_id a = fi_accountId fund_no_digits \<and> acc_userId a = u_id alice)
       (accounts bank_db) = Some alice_checking"
    "acc_status alice_checking = ''active''"
    by (simp_all add: sample)
  show ?thesis
    using free pre
      digit_free_number_passes [OF free, where input = fund_no_digits and fails = no_failure
        and clock = 99 and db = bank_db and ctx = as_alice and caller = alice
        and account = alice_checking]
    by simp
qed

lemma fundAccount_Inr:
  assumes "fundAccount fails clock db ctx input = (Inr res, db')"
  shows "\<exists>caller account.
           ctx_user ctx = Some caller \<and> 0 < fi_amount input
         \<and> find (\<lambda>a. acc_id a = fi_accountId input \<and> acc_userId a = u_id caller) (accounts db)
             = Some account
         \<and> acc_status account = ''active''
         \<and> transactionId res = next_id (map tx_id (transactions db))
         \<and> newBalance res =
             (case find (\<lambda>a. acc_id a = fi_accountId input)
                     (add_balance (fi_accountId input) (fi_amount input) (accounts db)) of
                Some a \<Rightarrow> acc_balance a | None \<Rightarrow> acc_balance account)
         \<and> db' = db\<lparr>transactions := transactions db @
                    [\<lparr>tx_id = next_id (map tx_id (transactions db)),
                      tx_accountId = fi_accountId input,
                      tx_type = ''deposit'',
                      tx_amount = fi_amount input,
                      tx_description = describe (fs_type (fi_fundingSource input)),
                      tx_status = ''completed'',
                      tx_createdAt = clock,
                      tx_processedAt = clock\<rparr>],
                   accounts := add_balance (fi_accountId input) (fi_amount input) (accounts db)\<rparr>"
  using assms unfolding fundAccount_def Let_def
  by (auto split: option.splits if_splits)

text \<open>
  C3. A \<^verbatim>\<open>fundAccount\<close> call that succeeds was made by an authenticated caller with a
  positive amount \<open>A\<close> on an active account the caller owns. Where account ids are unique
  and the account held the balance \<open>B\<close>, the accounts table afterwards is the old one with
  \<open>A\<close> added by the store to the balance of the rows of that id, so the account holds
  \<open>B + A\<close>; the transactions table has exactly one more row, a completed deposit of \<open>A\<close> on
  the account under an id not used before; the call returns that id and \<open>B + A\<close>; users
  and sessions are untouched.
\<close>

theorem fundAccount_success:
  assumes "fundAccount fails clock db ctx input = (Inr res, db')"
      and "distinct (map acc_id (accounts db))"
  shows "\<exists>caller account t.
           ctx_user ctx = Some caller \<and> 0 < fi_amount input
         \<and> find (\<lambda>a. acc_id a = fi_accountId input \<and> acc_userId a = u_id caller) (accounts db)
             = Some account
         \<and> acc_status account = ''active''
         \<and> accounts db' = add_balance (fi_accountId input) (fi_amount input) (accounts db)
         \<and> find (\<lambda>a. acc_id a = fi_accountId input) (accounts db')
             = Some (account\<lparr>acc_balance := acc_balance account + fi_amount input\<rparr>)
         \<and> transactions db' = transactions db @ [t]
         \<and> tx_type t = ''deposit'' \<and> tx_status t = ''completed''
         \<and> tx_amount t = fi_amount input \<and> tx_accountId t = fi_accountId input
         \<and> tx_id t \<notin> set (map tx_id (transactions db))
         \<and> res = \<lparr>transactionId = tx_id t,
                   newBalance = acc_balance account + fi_amount input\<rparr>
         \<and> users db' = users db \<and> sessions db' = sessions db"
proof -
  from fundAccount_Inr [OF assms(1)] obtain caller account where
    auth: "ctx_user ctx = Some caller" and pos: "0 < fi_amount input"
    and owned: "find (\<lambda>a. acc_id a = fi_accountId input \<and> acc_userId a = u_id caller)
                  (accounts db) = Some account"
    and active: "acc_status account = ''active''"
    and tid: "transactionId res = next_id (map tx_id (transactions db))"
    and bal: "newBalance res =
             (case find (\<lambda>a. acc_id a = fi_accountId input)
                     (add_balance (fi_accountId input) (fi_amount input) (accounts db)) of
                Some a \<Rightarrow> acc_balance a | None \<Rightarrow> acc_balance account)"
    and db': "db' = db\<lparr>transactions := transactions db @
                    [\<lparr>tx_id = next_id (map tx_id (transactions db)),
                      tx_accountId = fi_accountId input,
                      tx_type = ''deposit'',
                      tx_amount = fi_amount input,
                      tx_description = describe (fs_type (fi_fundingSource input)),
                      tx_status = ''completed'',
                      tx_createdAt = clock,
                      tx_processedAt = clock\<rparr>],
                   accounts := add_balance (fi_accountId input) (fi_amount input) (accounts db)\<rparr>"
    by blast
  have by_id: "find (\<lambda>a. acc_id a = fi_accountId input) (accounts db) = Some account"
    using assms(2) owned by (rule find_owned_by_id)
  have reread: "find (\<lambda>a. acc_id a = fi_accountId input)
                  (add_balance (fi_accountId input) (fi_amount input) (accounts db))
                = Some (account\<lparr>acc_balance := acc_balance account + fi_amount input\<rparr>)"
    by (simp add: find_add_balance by_id)
  have fresh: "next_id (map tx_id (transactions db)) \<notin> set (map tx_id (transactions db))"
    by (rule next_id_fresh)
  have res: "res = \<lparr>transactionId = next_id (map tx_id (transactions db)),
                    newBalance = acc_balance account + fi_amount input\<rparr>"
    using tid bal reread by simp
  show ?thesis
    apply (rule exI [of _ caller])
    apply (rule exI [of _ account])
    apply (rule exI [of _ "\<lparr>tx_id = next_id (map tx_id (transactions db)),
                      tx_accountId = fi_accountId input,
                      tx_type = ''deposit'',
                      tx_amount = fi_amount input,
                      tx_description = describe (fs_type (fi_fundingSource input)),
                      tx_status = ''completed'',
                      tx_createdAt = clock,
                      tx_processedAt = clock\<rparr>"])
    using auth pos owned active reread fresh res
    apply (simp add: db')
    done
qed

theorem fundAccount_success_witness:
  "fundAccount no_failure 99 bank_db as_alice fund_50
     = (Inr \<lparr>transactionId = 5, newBalance = 150\<rparr>,
        bank_db\<lparr>transactions := transactions bank_db @
                   [\<lparr>tx_id = 5, tx_accountId = 1, tx_type = ''deposit'', tx_amount = 50,
                     tx_description = ''Funding from card'', tx_status = ''completed'',
                     tx_createdAt = 99, tx_processedAt = 99\<rparr>],
                 accounts := [alice_checking\<lparr>acc_balance := 150\<rparr>, bob_savings]\<rparr>)
   \<and> distinct (map acc_id (accounts bank_db))
   \<and> (\<exists>caller account t.
         ctx_user as_alice = Some caller \<and> 0 < fi_amount fund_50
       \<and> find (\<lambda>a. acc_id a = fi_accountId fund_50 \<and> acc_userId a = u_id caller)
            (accounts bank_db) = Some account
       \<and> find (\<lambda>a. acc_id a = fi_accountId fund_50)
            (accounts (snd (fundAccount no_failure 99 bank_db as_alice fund_50)))
            = Some (account\<lparr>acc_balance := acc_balance account + fi_amount fund_50\<rparr>)
       \<and> transactions (snd (fundAccount no_failure 99 bank_db as_alice fund_50))
            = transactions bank_db @ [t]
       \<and> fst (fundAccount no_failure 99 bank_db as_alice fund_50)
            = Inr \<lparr>transactionId = tx_id t,
                    newBalance = acc_balance account + fi_amount fund_50\<rparr>)"
proof -
  have run: "fundAccount no_failure 99 bank_db as_alice fund_50
     = (Inr \<lparr>transactionId = 5, newBalance = 150\<rparr>,
        bank_db\<lparr>transactions := transactions bank_db @
                   [\<lparr>tx_id = 5, tx_accountId = 1, tx_type = ''deposit'', tx_amount = 50,
                     tx_description = ''Funding from card'', tx_status = ''completed'',
                     tx_createdAt = 99, tx_processedAt = 99\<rparr>],
                 accounts := [alice_checking\<lparr>acc_balance := 150\<rparr>, bob_savings]\<rparr>)"
    by (simp add: fundAccount_def sample isValidCardNumber_def is_digit_def parseInt_def
          next_id_def describe_def add_balance_def)
  have keys: "distinct (map acc_id (accounts bank_db))"
    by (simp add: sample)
  from fundAccount_success [OF run keys] obtain caller account t where
    "ctx_user as_alice = Some caller \<and> 0 < fi_amount fund_50
       \<and> find (\<lambda>a. acc_id a = fi_accountId fund_50 \<and> acc_userId a = u_id caller)
            (accounts bank_db) = Some account
       \<and> find (\<lambda>a. acc_id a = fi_accountId fund_50)
            (accounts (snd (fundAccount no_failure 99 bank_db as_alice fund_50)))
            = Some (account\<lparr>acc_balance := acc_balance account + fi_amount fund_50\<rparr>)
       \<and> transactions (snd (fundAccount no_failure 99 bank_db as_alice fund_50))
            = transactions bank_db @ [t]
       \<and> fst (fundAccount no_failure 99 bank_db as_alice fund_50)
            = Inr \<lparr>transactionId = tx_id t,
                    newBalance = acc_balance account + fi_amount fund_50\<rparr>"
    unfolding run by auto
  then have "\<exists>caller account t.
         ctx_user as_alice = Some caller \<and> 0 < fi_amount fund_50
       \<and> find (\<lambda>a. acc_id a = fi_accountId fund_50 \<and> acc_userId a = u_id caller)
            (accounts bank_db) = Some account
       \<and> find (\<lambda>a. acc_id a = fi_accountId fund_50)
            (accounts (snd (fundAccount no_failure 99 bank_db as_alice fund_50)))
            = Some (account\<lparr>acc_balance := acc_balance account + fi_amount fund_50\<rparr>)
       \<and> transactions (snd (fundAccount no_failure 99 bank_db as_alice fund_50))
            = transactions bank_db @ [t]
       \<and> fst (fundAccount no_failure 99 bank_db as_alice fund_50)
            = Inr \<lparr>transactionId = tx_id t,
                    newBalance = acc_balance account + fi_amount fund_50\<rparr>"
    by blast
  with run keys show ?thesis by blast
qed

text \<open>
  C1 as stated fails: on the sample store, when the \<^verbatim>\<open>UPDATE\<close> statement throws, the
  call ends with the completed deposit of 50 recorded and the balance of the account still
  at 100.
\<close>

theorem fundAccount_insert_without_update:
  "fundAccount update_fails 99 bank_db as_alice fund_50
     = (Inl StoreFailure,
        bank_db\<lparr>transactions := transactions bank_db @
                   [\<lparr>tx_id = 5, tx_accountId = 1, tx_type = ''deposit'', tx_amount = 50,
                     tx_description = ''Funding from card'', tx_status = ''completed'',
                     tx_createdAt = 99, tx_processedAt = 99\<rparr>]\<rparr>)
   \<and> accounts (snd (fundAccount update_fails 99 bank_db as_alice fund_50)) = accounts bank_db
   \<and> find (\<lambda>a. acc_id a = 1) (accounts (snd (fundAccount update_fails 99 bank_db as_alice fund_50)))
       = Some alice_checking
   \<and> acc_balance alice_checking = 100"
  by (simp add: fundAccount_def sample isValidCardNumber_def is_digit_def parseInt_def
        next_id_def describe_def)

lemma fundAccount_states:
  assumes "fundAccount fails clock db ctx input = (r, db')"
  defines "t \<equiv> \<lparr>tx_id = next_id (map tx_id (transactions db)),
                      tx_accountId = fi_accountId input,
                      tx_type = ''deposit'',
                      tx_amount = fi_amount input,
                      tx_description = describe (fs_type (fi_fundingSource input)),
                      tx_status = ''completed'',
                      tx_createdAt = clock,
                      tx_processedAt = clock\<rparr>"
  shows "db' = db
       \<or> (\<not> fails InsertTransaction \<and> \<not> fails UpdateBalance
           \<and> db' = db\<lparr>transactions := transactions db @ [t],
                       accounts := add_balance (fi_accountId input) (fi_amount input)
                                     (accounts db)\<rparr>)
       \<or> (\<not> fails InsertTransaction \<and> fails UpdateBalance \<and> r = Inl StoreFailure
           \<and> db' = db\<lparr>transactions := transactions db @ [t]\<rparr>)"
  using assms(1) unfolding fundAccount_def Let_def t_def
  by (auto split: option.splits if_splits)

lemma fundAccount_past_checks:
  assumes "ctx_user ctx = Some caller" and "0 < fi_amount input" and "\<not> fails SelectAccount"
      and "find (\<lambda>a. acc_id a = fi_accountId input \<and> acc_userId a = u_id caller) (accounts db)
             = Some account"
      and "acc_status account = ''active''"
      and "fs_type (fi_fundingSource input) = card
             \<longrightarrow> isValidCardNumber (fs_accountNumber (fi_fundingSource input))"
  shows "fails InsertTransaction
           \<Longrightarrow> fundAccount fails clock db ctx input = (Inl StoreFailure, db)"
    and "\<not> fails InsertTransaction \<Longrightarrow> fails UpdateBalance
           \<Longrightarrow> fundAccount fails clock db ctx input
                 = (Inl StoreFailure, db\<lparr>transactions := transactions db @ 
                     [\<lparr>tx_id = next_id (map tx_id (transactions db)),
                       tx_accountId = fi_accountId input,
                       tx_type = ''deposit'',
                       tx_amount = fi_amount input,
                       tx_description = describe (fs_type (fi_fundingSource input)),
                       tx_status = ''completed'',
                       tx_createdAt = clock,
                       tx_processedAt = clock\<rparr>]\<rparr>)"
    and "\<not> fails InsertTransaction \<Longrightarrow> \<not> fails UpdateBalance
           \<Longrightarrow> snd (fundAccount fails clock db ctx input)
                 = db\<lparr>transactions := transactions db @ 
                     [\<lparr>tx_id = next_id (map tx_id (transactions db)),
                       tx_accountId = fi_accountId input,
                       tx_type = ''deposit'',
                       tx_amount = fi_amount input,
                       tx_description = describe (fs_type (fi_fundingSource input)),
                       tx_status = ''completed'',
                       tx_createdAt = clock,
                       tx_processedAt = clock\<rparr>],
                       accounts := add_balance (fi_accountId input) (fi_amount input)
                                     (accounts db)\<rparr>"
  using assms(1-6) unfolding fundAccount_def Let_def
  by auto

text \<open>
  C1, amended. \<^verbatim>\<open>fundAccount\<close> issues the insert of the deposit row and the additive
  update of the balance as two store statements, the insert first, with no unit of work
  around them. Whatever statements fail, a call leaves the store in one of three states:
  unchanged; with both effects (then neither the insert nor the update failed); or with
  the deposit row alone, which happens only when the update fails after the insert went
  through, and the call then throws. So the pair is all-or-nothing in every execution in
  which the update statement does not fail. For a call that passes its checks (an
  authenticated caller, a positive amount, the first query answered, an active account of
  the caller, a card number that passes when the source is a card) each of the three
  happens: when the insert fails the call throws and the store is unchanged; when the
  insert goes through and the update fails the call throws and the store is the old one
  with the completed deposit row added and every balance as before; when neither fails
  the store has the row and the added balance.
\<close>

theorem fundAccount_insert_then_update:
  assumes "fundAccount fails clock db ctx input = (r, db')"
  shows "(db' = db
          \<or> (\<exists>t. tx_type t = ''deposit'' \<and> tx_status t = ''completed''
                 \<and> tx_amount t = fi_amount input \<and> tx_accountId t = fi_accountId input
                 \<and> \<not> fails InsertTransaction \<and> \<not> fails UpdateBalance
                 \<and> db' = db\<lparr>transactions := transactions db @ [t],
                             accounts := add_balance (fi_accountId input) (fi_amount input)
                                           (accounts db)\<rparr>)
          \<or> (\<exists>t. tx_type t = ''deposit'' \<and> tx_status t = ''completed''
                 \<and> tx_amount t = fi_amount input \<and> tx_accountId t = fi_accountId input
                 \<and> \<not> fails InsertTransaction \<and> fails UpdateBalance
                 \<and> r = Inl StoreFailure
                 \<and> db' = db\<lparr>transactions := transactions db @ [t]\<rparr>))
       \<and> (ctx_user ctx = Some caller \<and> 0 < fi_amount input \<and> \<not> fails SelectAccount
            \<and> find (\<lambda>a. acc_id a = fi_accountId input \<and> acc_userId a = u_id caller)
                  (accounts db) = Some account
            \<and> acc_status account = ''active''
            \<and> (fs_type (fi_fundingSource input) = card
                  \<longrightarrow> isValidCardNumber (fs_accountNumber (fi_fundingSource input)))
          \<longrightarrow> (fails InsertTransaction \<longrightarrow> r = Inl StoreFailure \<and> db' = db)
              \<and> (\<not> fails InsertTransaction \<and> fails UpdateBalance
                   \<longrightarrow> r = Inl StoreFailure
                       \<and> db' = db\<lparr>transactions := transactions db @
                                   [\<lparr>tx_id = next_id (map tx_id (transactions db)),
                                     tx_accountId = fi_accountId input,
                                     tx_type = ''deposit'',
                                     tx_amount = fi_amount input,
                                     tx_description = describe (fs_type (fi_fundingSource input)),
                                     tx_status = ''completed'',
                                     tx_createdAt = clock,
                                     tx_processedAt = clock\<rparr>]\<rparr>
                       \<and> accounts db' = accounts db
                       \<and> db' \<noteq> db)
              \<and> (\<not> fails InsertTransaction \<and> \<not> fails UpdateBalance
                   \<longrightarrow> db' = db\<lparr>transactions := transactions db @
                                   [\<lparr>tx_id = next_id (map tx_id (transactions db)),
                                     tx_accountId = fi_accountId input,
                                     tx_type = ''deposit'',
                                     tx_amount = fi_amount input,
                                     tx_description = describe (fs_type (fi_fundingSource input)),
                                     tx_status = ''completed'',
                                     tx_createdAt = clock,
                                     tx_processedAt = clock\<rparr>],
                                 accounts := add_balance (fi_accountId input) (fi_amount input)
                                               (accounts db)\<rparr>))"
proof (rule conjI)
  let ?t = "\<lparr>tx_id = next_id (map tx_id (transactions db)),
             tx_accountId = fi_accountId input,
             tx_type = ''deposit'',
             tx_amount = fi_amount input,
             tx_description = describe (fs_type (fi_fundingSource input)),
             tx_status = ''completed'',
             tx_createdAt = clock,
             tx_processedAt = clock\<rparr>"
  have row: "tx_type ?t = ''deposit'' \<and> tx_status ?t = ''completed''
              \<and> tx_amount ?t = fi_amount input \<and> tx_accountId ?t = fi_accountId input"
    by simp
  from fundAccount_states [OF assms] consider
      "db' = db"
    | "\<not> fails InsertTransaction \<and> \<not> fails UpdateBalance
           \<and> db' = db\<lparr>transactions := transactions db @ [?t],
                       accounts := add_balance (fi_accountId input) (fi_amount input)
                                     (accounts db)\<rparr>"
    | "\<not> fails InsertTransaction \<and> fails UpdateBalance \<and> r = Inl StoreFailure
           \<and> db' = db\<lparr>transactions := transactions db @ [?t]\<rparr>"
    by blast
  then show "db' = db
          \<or> (\<exists>t. tx_type t = ''deposit'' \<and> tx_status t = ''completed''
                 \<and> tx_amount t = fi_amount input \<and> tx_accountId t = fi_accountId input
                 \<and> \<not> fails InsertTransaction \<and> \<not> fails UpdateBalance
                 \<and> db' = db\<lparr>transactions := transactions db @ [t],
                             accounts := add_balance (fi_accountId input) (fi_amount input)
                                           (accounts db)\<rparr>)
          \<or> (\<exists>t. tx_type t = ''deposit'' \<and> tx_status t = ''completed''
                 \<and> tx_amount t = fi_amount input \<and> tx_accountId t = fi_accountId input
                 \<and> \<not> fails InsertTransaction \<and> fails UpdateBalance
                 \<and> r = Inl StoreFailure
                 \<and> db' = db\<lparr>transactions := transactions db @ [t]\<rparr>)"
  proof cases
    case 1
    then show ?thesis by simp
  next
    case 2
    with row show ?thesis by blast
  next
    case 3
    with row show ?thesis by blast
  qed
next
  let ?t = "\<lparr>tx_id = next_id (map tx_id (transactions db)),
             tx_accountId = fi_accountId input,
             tx_type = ''deposit'',
             tx_amount = fi_amount input,
             tx_description = describe (fs_type (fi_fundingSource input)),
             tx_status = ''completed'',
             tx_createdAt = clock,
             tx_processedAt = clock\<rparr>"
  have grown: "db\<lparr>transactions := transactions db @ [?t]\<rparr> \<noteq> db"
  proof
    assume "db\<lparr>transactions := transactions db @ [?t]\<rparr> = db"
    then have "transactions (db\<lparr>transactions := transactions db @ [?t]\<rparr>) = transactions db"
      by simp
    then show False by simp
  qed
  show "ctx_user ctx = Some caller \<and> 0 < fi_amount input \<and> \<not> fails SelectAccount
            \<and> find (\<lambda>a. acc_id a = fi_accountId input \<and> acc_userId a = u_id caller)
                  (accounts db) = Some account
            \<and> acc_status account = ''active''
            \<and> (fs_type (fi_fundingSource input) = card
                  \<longrightarrow> isValidCardNumber (fs_accountNumber (fi_fundingSource input)))
          \<longrightarrow> (fails InsertTransaction \<longrightarrow> r = Inl StoreFailure \<and> db' = db)
              \<and> (\<not> fails InsertTransaction \<and> fails UpdateBalance
                   \<longrightarrow> r = Inl StoreFailure
                       \<and> db' = db\<lparr>transactions := transactions db @ [?t]\<rparr>
                       \<and> accounts db' = accounts db
                       \<and> db' \<noteq> db)
              \<and> (\<not> fails InsertTransaction \<and> \<not> fails UpdateBalance
                   \<longrightarrow> db' = db\<lparr>transactions := transactions db @ [?t],
                                 accounts := add_balance (fi_accountId input) (fi_amount input)
                                               (accounts db)\<rparr>)"
  proof (intro impI conjI)
    assume checks: "ctx_user ctx = Some caller \<and> 0 < fi_amount input \<and> \<not> fails SelectAccount
            \<and> find (\<lambda>a. acc_id a = fi_accountId input \<and> acc_userId a = u_id caller)
                  (accounts db) = Some account
            \<and> acc_status account = ''active''
            \<and> (fs_type (fi_fundingSource input) = card
                  \<longrightarrow> isValidCardNumber (fs_accountNumber (fi_fundingSource input)))"
    note past = fundAccount_past_checks [where fails = fails and clock = clock and db = db
        and ctx = ctx and input = input and caller = caller and account = account]
    {
      assume "fails InsertTransaction"
      with checks assms past(1) show "r = Inl StoreFailure" and "db' = db" by auto
    }
    {
      assume "\<not> fails InsertTransaction \<and> fails UpdateBalance"
      with checks assms past(2) have both: "r = Inl StoreFailure"
        "db' = db\<lparr>transactions := transactions db @ [?t]\<rparr>" by auto
      then show "r = Inl StoreFailure" and "db' = db\<lparr>transactions := transactions db @ [?t]\<rparr>"
        by simp_all
      from both show "accounts db' = accounts db" by simp
      from both grown show "db' \<noteq> db" by simp
    }
    {
      assume "\<not> fails InsertTransaction \<and> \<not> fails UpdateBalance"
      with checks assms past(3) show "db' = db\<lparr>transactions := transactions db @ [?t],
                                 accounts := add_balance (fi_accountId input) (fi_amount input)
                                               (accounts db)\<rparr>"
        by auto
    }
  qed
qed

theorem fundAccount_insert_then_update_witness:
  "fst (fundAccount update_fails 77 bank_db as_alice fund_50) = Inl StoreFailure
   \<and> snd (fundAccount update_fails 77 bank_db as_alice fund_50)
       = bank_db\<lparr>transactions := transactions bank_db @
                   [\<lparr>tx_id = 5, tx_accountId = 1, tx_type = ''deposit'', tx_amount = 50,
                     tx_description = ''Funding from card'', tx_status = ''completed'',
                     tx_createdAt = 77, tx_processedAt = 77\<rparr>]\<rparr>
   \<and> snd (fundAccount update_fails 77 bank_db as_alice fund_50) \<noteq> bank_db
   \<and> snd (fundAccount no_failure 77 bank_db as_alice fund_50)
       = bank_db\<lparr>transactions := transactions bank_db @
                   [\<lparr>tx_id = 5, tx_accountId = 1, tx_type = ''deposit'', tx_amount = 50,
                     tx_description = ''Funding from card'', tx_status = ''completed'',
                     tx_createdAt = 77, tx_processedAt = 77\<rparr>],
                 accounts := [alice_checking\<lparr>acc_balance := 150\<rparr>, bob_savings]\<rparr>"
proof -
  have checks: "ctx_user as_alice = Some alice" "0 < fi_amount fund_50"
    "find (\<lambda>a. acc_id a = fi_accountId fund_50 \<and> acc_userId a = u_id alice)
       (accounts bank_db) = Some alice_checking"
    "acc_status alice_checking = ''active''"
    "isValidCardNumber (fs_accountNumber (fi_fundingSource fund_50))"
    by (simp_all add: sample isValidCardNumber_def is_digit_def parseInt_def)
  have which: "\<not> update_fails SelectAccount" "\<not> update_fails InsertTransaction"
    "update_fails UpdateBalance" "\<not> no_failure SelectAccount"
    "\<not> no_failure InsertTransaction" "\<not> no_failure UpdateBalance"
    by (simp_all add: update_fails_def no_failure_def)
  have row: "next_id (map tx_id (transactions bank_db)) = 5"
    "fi_accountId fund_50 = 1" "fi_amount fund_50 = 50"
    "describe (fs_type (fi_fundingSource fund_50)) = ''Funding from card''"
    "add_balance 1 50 (accounts bank_db) = [alice_checking\<lparr>acc_balance := 150\<rparr>, bob_savings]"
    by (simp_all add: sample next_id_def describe_def add_balance_def)
  show ?thesis
    using checks which
      fundAccount_insert_then_update
        [where fails = update_fails and clock = 77 and db = bank_db and ctx = as_alice
           and input = fund_50 and caller = alice and account = alice_checking
           and r = "fst (fundAccount update_fails 77 bank_db as_alice fund_50)"
           and db' = "snd (fundAccount update_fails 77 bank_db as_alice fund_50)"]
      fundAccount_insert_then_update
        [where fails = no_failure and clock = 77 and db = bank_db and ctx = as_alice
           and input = fund_50 and caller = alice and account = alice_checking
           and r = "fst (fundAccount no_failure 77 bank_db as_alice fund_50)"
           and db' = "snd (fundAccount no_failure 77 bank_db as_alice fund_50)"]
    by (auto simp: row)
qed

lemma find_not_owned:
  assumes "\<forall>a \<in> set rows. acc_id a = accountId \<longrightarrow> acc_userId a \<noteq> uid"
  shows "find (\<lambda>a. acc_id a = accountId \<and> acc_userId a = uid) rows = None"
  using assms by (auto simp: find_None_iff)

text \<open>
  C5. Let the caller be authenticated and let no account row with the given id belong to
  the caller (there is no such row, or its owner is someone else). Then \<^verbatim>\<open>fundAccount\<close>,
  called with an input its schema accepts and with the first query answered by the store,
  and \<^verbatim>\<open>getTransactions\<close> both throw \<^verbatim>\<open>NOT_FOUND\<close>, a code other than \<^verbatim>\<open>FORBIDDEN\<close>,
  and both leave the store as it was.
\<close>

theorem foreign_account_not_found:
  assumes "ctx_user ctx = Some caller"
      and "\<forall>a \<in> set (accounts db). acc_id a = accountId \<longrightarrow> acc_userId a \<noteq> u_id caller"
      and "fi_accountId input = accountId"
      and "0 < fi_amount input"
      and "\<not> fails SelectAccount"
  shows "fundAccount fails clock db ctx input
           = (Inl (TRPCError NOT_FOUND (Some ''Account not found'')), db)
       \<and> getTransactions db ctx accountId
           = (Inl (TRPCError NOT_FOUND (Some ''Account not found'')), db)
       \<and> NOT_FOUND \<noteq> FORBIDDEN"
  using assms find_not_owned [OF assms(2)]
  by (simp add: fundAccount_def getTransactions_def)

theorem foreign_account_not_found_witness:
  "ctx_user as_alice = Some alice
   \<and> find (\<lambda>a. acc_id a = 2) (accounts bank_db) = Some bob_savings
   \<and> acc_userId bob_savings \<noteq> u_id alice
   \<and> fundAccount no_failure 99 bank_db as_alice fund_bobs_account
       = (Inl (TRPCError NOT_FOUND (Some ''Account not found'')), bank_db)
   \<and> getTransactions bank_db as_alice 2
       = (Inl (TRPCError NOT_FOUND (Some ''Account not found'')), bank_db)
   \<and> fundAccount no_failure 99 bank_db as_alice (fund_bobs_account\<lparr>fi_accountId := 7\<rparr>)
       = (Inl (TRPCError NOT_FOUND (Some ''Account not found'')), bank_db)
   \<and> getTransactions bank_db as_alice 7
       = (Inl (TRPCError NOT_FOUND (Some ''Account not found'')), bank_db)"
proof -
  have auth: "ctx_user as_alice = Some alice"
    by (simp add: sample)
  have bobs: "find (\<lambda>a. acc_id a = 2) (accounts bank_db) = Some bob_savings"
    "acc_userId bob_savings \<noteq> u_id alice"
    by (simp_all add: sample)
  have foreign: "\<forall>a \<in> set (accounts bank_db). acc_id a = 2 \<longrightarrow> acc_userId a \<noteq> u_id alice"
    and absent: "\<forall>a \<in> set (accounts bank_db). acc_id a = 7 \<longrightarrow> acc_userId a \<noteq> u_id alice"
    by (simp_all add: sample)
  have input: "fi_accountId fund_bobs_account = 2" "0 < fi_amount fund_bobs_account"
    "fi_accountId (fund_bobs_account\<lparr>fi_accountId := 7\<rparr>) = 7"
    "0 < fi_amount (fund_bobs_account\<lparr>fi_accountId := 7\<rparr>)"
    "\<not> no_failure SelectAccount"
    by (simp_all add: fund_bobs_account_def no_failure_def)
  show ?thesis
    using auth bobs
      foreign_account_not_found [where fails = no_failure and clock = 99,
        OF auth foreign input(1) input(2) input(5)]
      foreign_account_not_found [where fails = no_failure and clock = 99,
        OF auth absent input(3) input(4) input(5)]
    by simp
qed

lemma createContext_early_expiry:
  assumes "token \<noteq> []" and "jwt_verify lib token now = Some userId"
      and "find (\<lambda>s. s_token s = token) (sessions db) = Some session"
      and "s_expiresAt session = Some e" and "e - now \<le> earlyExpiryWindow"
  shows "createContext_try lib now db token
           = (Inl (TRPCError UNAUTHORIZED (Some ''Session expired'')),
              db\<lparr>sessions := filter (\<lambda>s. s_token s \<noteq> token) (sessions db)\<rparr>)"
    and "createContext lib now db (Some token)
           = (\<lparr>ctx_user = None\<rparr>,
              db\<lparr>sessions := filter (\<lambda>s. s_token s \<noteq> token) (sessions db)\<rparr>)"
  using assms by (simp_all add: createContext_def createContext_try_def)

lemma createContext_unverified:
  assumes "jwt_verify lib token now = None"
  shows "createContext lib now db (Some token) = (\<lparr>ctx_user = None\<rparr>, db)"
  using assms by (simp add: createContext_def createContext_try_def)

text \<open>
  C2, on the code. The token is one that \<^verbatim>\<open>jwt.verify\<close> accepts and its session expires
  30 seconds after the call. The \<^verbatim>\<open>try\<close> block deletes the row and throws
  \<^verbatim>\<open>UNAUTHORIZED\<close>, \<^verbatim>\<open>Session expired\<close>; the \<^verbatim>\<open>catch\<close> clause around it ignores the error,
  and \<^verbatim>\<open>createContext\<close> returns an anonymous context. The second validation is anonymous
  as well.
\<close>

theorem expiring_session_error_is_caught:
  "createContext_try sample_lib 100000000 (bank_db\<lparr>sessions := [expiring_session]\<rparr>)
       ''alice-token''
     = (Inl (TRPCError UNAUTHORIZED (Some ''Session expired'')), bank_db\<lparr>sessions := []\<rparr>)
   \<and> createContext sample_lib 100000000 (bank_db\<lparr>sessions := [expiring_session]\<rparr>)
       (Some ''alice-token'')
     = (\<lparr>ctx_user = None\<rparr>, bank_db\<lparr>sessions := []\<rparr>)
   \<and> createContext sample_lib 100000000 (bank_db\<lparr>sessions := []\<rparr>) (Some ''alice-token'')
     = (\<lparr>ctx_user = None\<rparr>, bank_db\<lparr>sessions := []\<rparr>)"
  by (simp add: createContext_def createContext_try_def sample_lib_def carol_signup_def expiring_session_def
        earlyExpiryWindow_def)

text \<open>
  C6 as stated fails: the session of the token expired a day before the call, far from
  the 60 seconds before its expiry, \<^verbatim>\<open>jwt.verify\<close> accepts the token, and the row is
  deleted.
\<close>

theorem stale_session_is_deleted:
  "s_expiresAt stale_session = Some 13600000
   \<and> (13600000 :: int) < 100000000 - 60000
   \<and> find (\<lambda>s. s_token s = ''alice-token'') (sessions (bank_db\<lparr>sessions := [stale_session]\<rparr>))
       = Some stale_session
   \<and> createContext sample_lib 100000000 (bank_db\<lparr>sessions := [stale_session]\<rparr>)
       (Some ''alice-token'')
     = (\<lparr>ctx_user = None\<rparr>, bank_db\<lparr>sessions := []\<rparr>)
   \<and> sessions (snd (createContext sample_lib 100000000 (bank_db\<lparr>sessions := [stale_session]\<rparr>)
       (Some ''alice-token''))) \<noteq> sessions (bank_db\<lparr>sessions := [stale_session]\<rparr>)"
  by (simp add: createContext_def createContext_try_def sample_lib_def stale_session_def
        earlyExpiryWindow_def)

text \<open>
  C6, amended. A session that is strictly expired passes the early-expiry test
  \<^verbatim>\<open>expiresAtMs - now <= earlyExpiryWindow\<close> as well, so no session is expired and outside
  it. For a token whose stored session is strictly expired, validation treats the caller as
  anonymous; the rows of the token are deleted when \<^verbatim>\<open>jwt.verify\<close> accepts the token, and
  the store is left as it was when \<^verbatim>\<open>jwt.verify\<close> rejects it.
\<close>

theorem expired_session_anonymous:
  assumes "token \<noteq> []"
      and "find (\<lambda>s. s_token s = token) (sessions db) = Some session"
      and "s_expiresAt session = Some e" and "e < now"
  shows "e - now \<le> earlyExpiryWindow
       \<and> createContext lib now db (Some token)
           = (\<lparr>ctx_user = None\<rparr>,
              if jwt_verify lib token now = None then db
              else db\<lparr>sessions := filter (\<lambda>s. s_token s \<noteq> token) (sessions db)\<rparr>)"
proof -
  have early: "e - now \<le> earlyExpiryWindow"
    using assms(4) by (simp add: earlyExpiryWindow_def)
  show ?thesis
  proof (cases "jwt_verify lib token now")
    case None
    then show ?thesis using early by (simp add: createContext_unverified)
  next
    case (Some userId)
    then show ?thesis
      using early createContext_early_expiry(2) [OF assms(1) Some assms(2) assms(3) early]
      by simp
  qed
qed

theorem expired_session_anonymous_witness:
  "find (\<lambda>s. s_token s = ''alice-token'') (sessions (bank_db\<lparr>sessions := [stale_session]\<rparr>))
       = Some stale_session
   \<and> createContext sample_lib 100000000 (bank_db\<lparr>sessions := [stale_session]\<rparr>)
       (Some ''alice-token'')
     = (\<lparr>ctx_user = None\<rparr>, bank_db\<lparr>sessions := []\<rparr>)
   \<and> createContext (sample_lib\<lparr>jwt_verify := \<lambda>token now. None\<rparr>) 100000000
       (bank_db\<lparr>sessions := [stale_session]\<rparr>) (Some ''alice-token'')
     = (\<lparr>ctx_user = None\<rparr>, bank_db\<lparr>sessions := [stale_session]\<rparr>)"
proof -
  have token: "''alice-token'' \<noteq> []" by simp
  have row: "find (\<lambda>s. s_token s = ''alice-token'')
               (sessions (bank_db\<lparr>sessions := [stale_session]\<rparr>)) = Some stale_session"
    by (simp add: stale_session_def)
  have at: "s_expiresAt stale_session = Some 13600000"
    by (simp add: stale_session_def)
  have past: "(13600000::int) < 100000000" by simp
  show ?thesis
    using row
      expired_session_anonymous [OF token row at past, of sample_lib]
      expired_session_anonymous [OF token row at past,
        of "sample_lib\<lparr>jwt_verify := \<lambda>token now. None\<rparr>"]
    by (simp add: sample_lib_def stale_session_def)
qed

lemma login_Inr:
  assumes "login lib now db input = (Inr res, db')"
  shows "\<exists>user. find (\<lambda>u. u_email u = li_email input) (users db) = Some user
           \<and> bcrypt_compare lib (li_password input) (u_password user)
           \<and> res = \<lparr>lr_userId = u_id user, lr_email = u_email user,
                     lr_token = jwt_sign lib (u_id user) now\<rparr>
           \<and> db' = db\<lparr>sessions := filter (\<lambda>s. s_userId s \<noteq> u_id user) (sessions db) @
                         [\<lparr>s_userId = u_id user, s_token = jwt_sign lib (u_id user) now,
                           s_expiresAt = Some (plus_7_days lib now)\<rparr>]\<rparr>"
  using assms unfolding login_def Let_def
  by (auto split: option.splits if_splits)

lemma signup_sessions:
  assumes "signup lib now db input = (r, db')"
  shows "sessions db' = sessions db \<or> (\<exists>s. sessions db' = sessions db @ [s])"
  using assms unfolding signup_def Let_def
  by (auto split: option.splits)

lemma createContext_sessions:
  assumes "createContext lib now db cookie = (ctx, db')"
  shows "sessions db' = sessions db
       \<or> (\<exists>token. cookie = Some token
             \<and> sessions db' = filter (\<lambda>s. s_token s \<noteq> token) (sessions db))"
  using assms unfolding createContext_def createContext_try_def Let_def
  by (auto split: option.splits if_splits)

text \<open>
  C4. A login that succeeds deletes every session row of the user and then inserts one:
  the sessions table afterwards is the old one without the rows of that user, followed by
  one new row that carries the returned token. So exactly one session row of the user is
  in the store after the login, however many there were before, and the rows of the other
  users are the ones that were there. The rule is enforced by \<^verbatim>\<open>login\<close> only: \<^verbatim>\<open>signup\<close>
  deletes no session, it leaves the table as it was or adds one row, and \<^verbatim>\<open>createContext\<close>
  deletes by token, never by user.
\<close>

theorem login_single_session:
  assumes "login lib now db input = (Inr res, db')"
  shows "(\<exists>user. find (\<lambda>u. u_email u = li_email input) (users db) = Some user
           \<and> lr_userId res = u_id user
           \<and> sessions db' = filter (\<lambda>s. s_userId s \<noteq> u_id user) (sessions db) @
                 [\<lparr>s_userId = u_id user, s_token = lr_token res,
                   s_expiresAt = Some (plus_7_days lib now)\<rparr>]
           \<and> length (filter (\<lambda>s. s_userId s = u_id user) (sessions db')) = 1
           \<and> filter (\<lambda>s. s_userId s \<noteq> u_id user) (sessions db')
               = filter (\<lambda>s. s_userId s \<noteq> u_id user) (sessions db)
           \<and> users db' = users db \<and> accounts db' = accounts db
           \<and> transactions db' = transactions db)
       \<and> (signup slib snow sdb sinput = (sres, sdb')
            \<longrightarrow> sessions sdb' = sessions sdb \<or> (\<exists>s. sessions sdb' = sessions sdb @ [s]))
       \<and> (createContext clib cnow cdb cookie = (ctx, cdb')
            \<longrightarrow> sessions cdb' = sessions cdb
                \<or> (\<exists>token. cookie = Some token
                      \<and> sessions cdb' = filter (\<lambda>s. s_token s \<noteq> token) (sessions cdb)))"
proof -
  from login_Inr [OF assms] obtain user where
    found: "find (\<lambda>u. u_email u = li_email input) (users db) = Some user"
    and res: "res = \<lparr>lr_userId = u_id user, lr_email = u_email user,
                     lr_token = jwt_sign lib (u_id user) now\<rparr>"
    and db': "db' = db\<lparr>sessions := filter (\<lambda>s. s_userId s \<noteq> u_id user) (sessions db) @
                         [\<lparr>s_userId = u_id user, s_token = jwt_sign lib (u_id user) now,
                           s_expiresAt = Some (plus_7_days lib now)\<rparr>]\<rparr>"
    by blast
  have none_left: "filter (\<lambda>s. s_userId s = u_id user)
                     (filter (\<lambda>s. s_userId s \<noteq> u_id user) (sessions db)) = []"
    by (simp add: filter_empty_conv)
  have others: "filter (\<lambda>s. s_userId s \<noteq> u_id user)
                  (filter (\<lambda>s. s_userId s \<noteq> u_id user) (sessions db))
                = filter (\<lambda>s. s_userId s \<noteq> u_id user) (sessions db)"
    by simp
  have at_login: "\<exists>user. find (\<lambda>u. u_email u = li_email input) (users db) = Some user
           \<and> lr_userId res = u_id user
           \<and> sessions db' = filter (\<lambda>s. s_userId s \<noteq> u_id user) (sessions db) @
                 [\<lparr>s_userId = u_id user, s_token = lr_token res,
                   s_expiresAt = Some (plus_7_days lib now)\<rparr>]
           \<and> length (filter (\<lambda>s. s_userId s = u_id user) (sessions db')) = 1
           \<and> filter (\<lambda>s. s_userId s \<noteq> u_id user) (sessions db')
               = filter (\<lambda>s. s_userId s \<noteq> u_id user) (sessions db)
           \<and> users db' = users db \<and> accounts db' = accounts db
           \<and> transactions db' = transactions db"
    apply (rule exI [of _ user])
    using found none_left others
    apply (simp add: res db')
    done
  show ?thesis
    using at_login signup_sessions [of slib snow sdb sinput sres sdb']
      createContext_sessions [of clib cnow cdb cookie ctx cdb']
    by blast
qed

theorem login_single_session_witness:
  "login sample_lib 100000000
       (bank_db\<lparr>sessions := [live_session, bob_session, stale_session]\<rparr>) alice_login
     = (Inr \<lparr>lr_userId = 1, lr_email = ''alice@example.com'', lr_token = ''alice-token''\<rparr>,
        bank_db\<lparr>sessions := [bob_session,
          \<lparr>s_userId = 1, s_token = ''alice-token'', s_expiresAt = Some 704800000\<rparr>]\<rparr>)
   \<and> (\<exists>user. find (\<lambda>u. u_email u = li_email alice_login) (users bank_db) = Some user
         \<and> length (filter (\<lambda>s. s_userId s = u_id user)
              (sessions (snd (login sample_lib 100000000
                 (bank_db\<lparr>sessions := [live_session, bob_session, stale_session]\<rparr>)
                 alice_login)))) = 1)
   \<and> sessions (snd (signup sample_lib 100000000
        (bank_db\<lparr>sessions := [live_session, stale_session]\<rparr>) carol_signup))
     = [live_session, stale_session,
        \<lparr>s_userId = 3, s_token = ''other-token'', s_expiresAt = Some 704800000\<rparr>]
   \<and> sessions (snd (createContext sample_lib 100000000
        (bank_db\<lparr>sessions := [live_session, stale_session]\<rparr>) (Some ''alice-token'')))
     = [live_session, stale_session]"
proof -
  have run: "login sample_lib 100000000
       (bank_db\<lparr>sessions := [live_session, bob_session, stale_session]\<rparr>) alice_login
     = (Inr \<lparr>lr_userId = 1, lr_email = ''alice@example.com'', lr_token = ''alice-token''\<rparr>,
        bank_db\<lparr>sessions := [bob_session,
          \<lparr>s_userId = 1, s_token = ''alice-token'', s_expiresAt = Some 704800000\<rparr>]\<rparr>)"
    by (simp add: login_def Let_def sample)
  have up: "sessions (snd (signup sample_lib 100000000
        (bank_db\<lparr>sessions := [live_session, stale_session]\<rparr>) carol_signup))
     = [live_session, stale_session,
        \<lparr>s_userId = 3, s_token = ''other-token'', s_expiresAt = Some 704800000\<rparr>]"
    by (simp add: signup_def Let_def sample next_id_def)
  have validate: "sessions (snd (createContext sample_lib 100000000
        (bank_db\<lparr>sessions := [live_session, stale_session]\<rparr>) (Some ''alice-token'')))
     = [live_session, stale_session]"
    by (simp add: createContext_def createContext_try_def sample earlyExpiryWindow_def)
  from login_single_session [OF run] obtain user where
    "find (\<lambda>u. u_email u = li_email alice_login)
       (users (bank_db\<lparr>sessions := [live_session, bob_session, stale_session]\<rparr>)) = Some user"
    "length (filter (\<lambda>s. s_userId s = u_id user)
       (sessions (bank_db\<lparr>sessions := [bob_session,
          \<lparr>s_userId = 1, s_token = ''alice-token'', s_expiresAt = Some 704800000\<rparr>]\<rparr>))) = 1"
    by blast
  then have "\<exists>user. find (\<lambda>u. u_email u = li_email alice_login) (users bank_db) = Some user
         \<and> length (filter (\<lambda>s. s_userId s = u_id user)
              (sessions (snd (login sample_lib 100000000
                 (bank_db\<lparr>sessions := [live_session, bob_session, stale_session]\<rparr>)
                 alice_login)))) = 1"
    unfolding run by auto
  with run up validate show ?thesis by blast
qed

lemma generate_unique_free:
  assumes "generate_unique rows generated = Some accountNumber"
  shows "find (\<lambda>a. acc_accountNumber a = accountNumber) rows = None"
  using assms by (induction generated) (auto split: option.splits)

lemma generate_unique_returns:
  assumes "\<exists>n \<in> set generated. find (\<lambda>a. acc_accountNumber a = n) rows = None"
  shows "\<exists>accountNumber. generate_unique rows generated = Some accountNumber"
  using assms by (induction generated) (auto split: option.splits)

lemma createAccount_existing:
  assumes "ctx_user ctx = Some caller"
      and "find (\<lambda>a. acc_userId a = u_id caller \<and> acc_accountType a = t) (accounts db)
             = Some existing"
  shows "createAccount generated clock db ctx t
           = Some (Inl (TRPCError CONFLICT
                     (Some (''You already have a '' @ accountType_name t @ '' account''))), db)"
  using assms by (simp add: createAccount_def)

lemma createAccount_Inr:
  assumes "ctx_user ctx = Some caller"
      and "createAccount generated clock db ctx t = Some (Inr account, db1)"
  shows "\<exists>accountNumber.
           find (\<lambda>a. acc_userId a = u_id caller \<and> acc_accountType a = t) (accounts db) = None
         \<and> generate_unique (accounts db) generated = Some accountNumber
         \<and> db1 = db\<lparr>accounts := accounts db @
                    [\<lparr>acc_id = next_id (map acc_id (accounts db)),
                      acc_userId = u_id caller,
                      acc_accountNumber = accountNumber,
                      acc_accountType = t,
                      acc_balance = 0,
                      acc_status = ''active'',
                      acc_createdAt = clock\<rparr>]\<rparr>"
  using assms unfolding createAccount_def Let_def
  by (auto split: option.splits)

lemma createAccount_returns:
  assumes "ctx_user ctx = Some caller"
      and "find (\<lambda>a. acc_userId a = u_id caller \<and> acc_accountType a = t) (accounts db) = None"
      and "\<exists>n \<in> set generated. find (\<lambda>a. acc_accountNumber a = n) (accounts db) = None"
  shows "\<exists>account db1. createAccount generated clock db ctx t = Some (Inr account, db1)"
proof -
  from generate_unique_returns [OF assms(3)] obtain accountNumber where
    "generate_unique (accounts db) generated = Some accountNumber" by blast
  then show ?thesis
    using assms(1,2) unfolding createAccount_def Let_def
    by (simp split: option.splits)
qed

text \<open>
  C7. For an authenticated caller: when the caller already owns an account of the given
  type, \<^verbatim>\<open>createAccount\<close> throws \<^verbatim>\<open>CONFLICT\<close> and leaves the store as it was, whatever
  numbers would be generated. When a first call has created an account, a second call
  with the same type on the resulting store throws \<^verbatim>\<open>CONFLICT\<close>, creates nothing, and the
  store holds exactly one account of that type for the caller. The first call does return
  when the caller has no account of the type and one of the generated numbers is free.
\<close>

theorem createAccount_twice:
  assumes "ctx_user ctx = Some caller"
  shows "(find (\<lambda>a. acc_userId a = u_id caller \<and> acc_accountType a = t) (accounts db)
            = Some existing
          \<longrightarrow> createAccount generated clock db ctx t
                = Some (Inl (TRPCError CONFLICT
                          (Some (''You already have a '' @ accountType_name t @ '' account''))),
                        db))
       \<and> (createAccount generated clock db ctx t = Some (Inr account, db')
          \<longrightarrow> createAccount generated' clock' db' ctx t
                = Some (Inl (TRPCError CONFLICT
                          (Some (''You already have a '' @ accountType_name t @ '' account''))),
                        db')
              \<and> length (filter (\<lambda>a. acc_userId a = u_id caller \<and> acc_accountType a = t)
                          (accounts db')) = 1)
       \<and> (find (\<lambda>a. acc_userId a = u_id caller \<and> acc_accountType a = t) (accounts db) = None
            \<and> (\<exists>n \<in> set generated. find (\<lambda>a. acc_accountNumber a = n) (accounts db) = None)
          \<longrightarrow> (\<exists>account db'. createAccount generated clock db ctx t = Some (Inr account, db')))"
proof (intro conjI impI)
  assume "find (\<lambda>a. acc_userId a = u_id caller \<and> acc_accountType a = t) (accounts db)
            = Some existing"
  with assms show "createAccount generated clock db ctx t
                = Some (Inl (TRPCError CONFLICT
                          (Some (''You already have a '' @ accountType_name t @ '' account''))),
                        db)"
    by (rule createAccount_existing)
next
  assume first: "createAccount generated clock db ctx t = Some (Inr account, db')"
  from createAccount_Inr [OF assms first] obtain accountNumber where
    none: "find (\<lambda>a. acc_userId a = u_id caller \<and> acc_accountType a = t) (accounts db) = None"
    and db': "db' = db\<lparr>accounts := accounts db @
                    [\<lparr>acc_id = next_id (map acc_id (accounts db)),
                      acc_userId = u_id caller,
                      acc_accountNumber = accountNumber,
                      acc_accountType = t,
                      acc_balance = 0,
                      acc_status = ''active'',
                      acc_createdAt = clock\<rparr>]\<rparr>"
    by blast
  from none have no_rows:
    "filter (\<lambda>a. acc_userId a = u_id caller \<and> acc_accountType a = t) (accounts db) = []"
    by (simp add: find_None_iff filter_empty_conv)
  then show "length (filter (\<lambda>a. acc_userId a = u_id caller \<and> acc_accountType a = t)
                          (accounts db')) = 1"
    by (simp add: db')
  then have "filter (\<lambda>a. acc_userId a = u_id caller \<and> acc_accountType a = t) (accounts db') \<noteq> []"
    by auto
  then obtain existing where
    "find (\<lambda>a. acc_userId a = u_id caller \<and> acc_accountType a = t) (accounts db')
       = Some existing"
    by (cases "find (\<lambda>a. acc_userId a = u_id caller \<and> acc_accountType a = t) (accounts db')")
       (auto simp: find_None_iff filter_empty_conv)
  with assms show "createAccount generated' clock' db' ctx t
                = Some (Inl (TRPCError CONFLICT
                          (Some (''You already have a '' @ accountType_name t @ '' account''))),
                        db')"
    by (rule createAccount_existing)
next
  assume "find (\<lambda>a. acc_userId a = u_id caller \<and> acc_accountType a = t) (accounts db) = None
            \<and> (\<exists>n \<in> set generated. find (\<lambda>a. acc_accountNumber a = n) (accounts db) = None)"
  with assms show "\<exists>account db'. createAccount generated clock db ctx t = Some (Inr account, db')"
    using createAccount_returns by blast
qed

theorem createAccount_twice_witness:
  "createAccount [''1000000002'', ''1000000003''] 50 bank_db as_alice savings
     = Some (Inr alice_savings, bank_db\<lparr>accounts := accounts bank_db @ [alice_savings]\<rparr>)
   \<and> createAccount [''1000000004''] 60 (bank_db\<lparr>accounts := accounts bank_db @ [alice_savings]\<rparr>)
        as_alice savings
     = Some (Inl (TRPCError CONFLICT (Some ''You already have a savings account'')),
             bank_db\<lparr>accounts := accounts bank_db @ [alice_savings]\<rparr>)
   \<and> length (filter (\<lambda>a. acc_userId a = u_id alice \<and> acc_accountType a = savings)
        (accounts (bank_db\<lparr>accounts := accounts bank_db @ [alice_savings]\<rparr>))) = 1
   \<and> createAccount [''1000000004''] 60 bank_db as_alice checking
     = Some (Inl (TRPCError CONFLICT (Some ''You already have a checking account'')), bank_db)"
proof -
  have auth: "ctx_user as_alice = Some alice"
    by (simp add: sample)
  have first: "createAccount [''1000000002'', ''1000000003''] 50 bank_db as_alice savings
     = Some (Inr alice_savings, bank_db\<lparr>accounts := accounts bank_db @ [alice_savings]\<rparr>)"
    by (simp add: createAccount_def sample alice_savings_def next_id_def)
  have owned: "find (\<lambda>a. acc_userId a = u_id alice \<and> acc_accountType a = checking)
                 (accounts bank_db) = Some alice_checking"
    by (simp add: sample)
  show ?thesis
    using first owned
      createAccount_twice [OF auth, where t = savings and db = bank_db
        and generated = "[''1000000002'', ''1000000003'']" and clock = 50
        and account = alice_savings
        and db' = "bank_db\<lparr>accounts := accounts bank_db @ [alice_savings]\<rparr>"
        and generated' = "[''1000000004'']" and clock' = 60]
      createAccount_twice [OF auth, where t = "checking" and db = bank_db
        and existing = alice_checking and generated = "[''1000000004'']" and clock = 60]
    by (simp add: accountType_name_def)
qed

lemma extend_fields [simp]:
  "tx_id (transaction_row.extend t (joined_row.fields x)) = tx_id t"
  "tx_accountId (transaction_row.extend t (joined_row.fields x)) = tx_accountId t"
  "tx_createdAt (transaction_row.extend t (joined_row.fields x)) = tx_createdAt t"
  "accountType (transaction_row.extend t (joined_row.fields x)) = x"
  "transaction_row.truncate (transaction_row.extend t (joined_row.fields x)) = t"
  by (simp_all add: transaction_row.extend_def joined_row.fields_def
        transaction_row.truncate_def)

lemma filter_by_id:
  "distinct (map acc_id rows) \<Longrightarrow> find (\<lambda>a. acc_id a = i) rows = Some account \<Longrightarrow>
   filter (\<lambda>a. i = acc_id a) rows = [account]"
proof (induction rows)
  case Nil
  then show ?case by simp
next
  case (Cons r rows)
  show ?case
  proof (cases "acc_id r = i")
    case True
    with Cons.prems have "r = account" and "i \<notin> acc_id ` set rows" by auto
    then have "filter (\<lambda>a. i = acc_id a) rows = []"
      by (auto simp: filter_empty_conv)
    with True \<open>r = account\<close> show ?thesis by simp
  next
    case False
    with Cons show ?thesis by auto
  qed
qed

lemma leftJoin_account:
  assumes "filter (\<lambda>a. accountId = acc_id a) accts = [account]"
  shows "filter (\<lambda>r. tx_accountId r = accountId) (leftJoin txs accts)
       = map (\<lambda>t. transaction_row.extend t (joined_row.fields (Some (acc_accountType account))))
           (filter (\<lambda>t. tx_accountId t = accountId) txs)"
proof (induction txs)
  case Nil
  then show ?case by (simp add: leftJoin_def)
next
  case (Cons t txs)
  have step: "leftJoin (t # txs) accts
      = (case filter (\<lambda>a. tx_accountId t = acc_id a) accts of
          [] \<Rightarrow> [transaction_row.extend t (joined_row.fields None)]
        | matching \<Rightarrow>
            map (\<lambda>a. transaction_row.extend t (joined_row.fields (Some (acc_accountType a))))
              matching) @ leftJoin txs accts"
    by (simp add: leftJoin_def)
  show ?case
  proof (cases "tx_accountId t = accountId")
    case True
    with assms Cons show ?thesis by (simp add: step)
  next
    case False
    then have "filter (\<lambda>r. tx_accountId r = accountId)
        (case filter (\<lambda>a. tx_accountId t = acc_id a) accts of
          [] \<Rightarrow> [transaction_row.extend t (joined_row.fields None)]
        | matching \<Rightarrow>
            map (\<lambda>a. transaction_row.extend t (joined_row.fields (Some (acc_accountType a))))
              matching) = []"
      by (auto simp: filter_empty_conv split: list.splits)
    with False Cons show ?thesis by (simp add: step)
  qed
qed

lemma sorted_wrt_distinct:
  "sorted_wrt R xs \<Longrightarrow> distinct (map f xs) \<Longrightarrow> sorted_wrt (\<lambda>a b. R a b \<and> f a \<noteq> f b) xs"
  by (induction xs) auto

lemma orderBy_desc_mset: "mset (orderBy_desc rows) = mset rows"
  by (simp add: orderBy_desc_def)

lemma orderBy_desc_sorted:
  assumes "distinct (map tx_id rows)"
  shows "sorted_wrt (\<lambda>r r'. tx_createdAt r > tx_createdAt r'
                         \<or> (tx_createdAt r = tx_createdAt r' \<and> tx_id r > tx_id r'))
           (orderBy_desc rows)"
proof -
  let ?key = "\<lambda>r::'a joined_row. (tx_createdAt r, tx_id r)"
  have "sorted (map ?key (sort_key ?key rows))" by (rule sorted_sort_key)
  then have "sorted_wrt (\<lambda>a b. ?key a \<le> ?key b) (sort_key ?key rows)"
    by (simp add: sorted_map)
  then have desc: "sorted_wrt (\<lambda>a b. ?key b \<le> ?key a) (orderBy_desc rows)"
    by (simp add: orderBy_desc_def sorted_wrt_rev)
  have "mset (map tx_id (orderBy_desc rows)) = mset (map tx_id rows)"
    by (simp add: orderBy_desc_mset)
  then have "distinct (map tx_id (orderBy_desc rows))"
    using assms by (metis mset_eq_imp_distinct_iff)
  with desc have "sorted_wrt (\<lambda>a b. ?key b \<le> ?key a \<and> tx_id a \<noteq> tx_id b) (orderBy_desc rows)"
    by (rule sorted_wrt_distinct)
  then show ?thesis
    by (rule sorted_wrt_mono_rel [rotated]) (auto simp: less_eq_prod_def)
qed

lemma enrich_joined:
  assumes "find (\<lambda>a. acc_id a = tx_accountId r) accts = Some account"
  shows "enrich accts r = r\<lparr>accountType := Some (acc_accountType account)\<rparr>"
  using assms by (simp add: enrich_def)

text \<open>
  C9. For an account the caller owns, in a store whose account ids and transaction ids
  are unique, \<^verbatim>\<open>getTransactions\<close> returns, without changing the store, rows that are exactly
  the transactions of that account (the same rows with the same multiplicities, once the
  joined column is dropped), in an order in which every row comes before every row created
  earlier and before every row created at the same time with a smaller id, each with the
  \<^verbatim>\<open>accountType\<close> the account has in the store at the time of the call.
\<close>

theorem getTransactions_newest_first:
  assumes "ctx_user ctx = Some caller"
      and "find (\<lambda>a. acc_id a = accountId \<and> acc_userId a = u_id caller) (accounts db)
             = Some account"
      and "distinct (map acc_id (accounts db))"
      and "distinct (map tx_id (transactions db))"
  shows "\<exists>rows. getTransactions db ctx accountId = (Inr rows, db)
           \<and> mset (map transaction_row.truncate rows)
               = mset (filter (\<lambda>t. tx_accountId t = accountId) (transactions db))
           \<and> sorted_wrt (\<lambda>r r'. tx_createdAt r > tx_createdAt r'
                               \<or> (tx_createdAt r = tx_createdAt r' \<and> tx_id r > tx_id r')) rows
           \<and> (\<forall>r \<in> set rows. accountType r = Some (acc_accountType account))"
proof -
  let ?own = "filter (\<lambda>t. tx_accountId t = accountId) (transactions db)"
  let ?join = "\<lambda>t. transaction_row.extend t (joined_row.fields (Some (acc_accountType account)))"
  let ?rows = "orderBy_desc (map ?join ?own)"
  have by_id: "find (\<lambda>a. acc_id a = accountId) (accounts db) = Some account"
    using assms(3) assms(2) by (rule find_owned_by_id)
  have one: "filter (\<lambda>a. accountId = acc_id a) (accounts db) = [account]"
    using assms(3) by_id by (rule filter_by_id)
  have joined: "filter (\<lambda>r. tx_accountId r = accountId) (leftJoin (transactions db) (accounts db))
                  = map ?join ?own"
    using one by (rule leftJoin_account)
  have members: "set ?rows = set (map ?join ?own)"
    using orderBy_desc_mset [of "map ?join ?own"] by (metis set_mset_mset)
  have same: "enrich (accounts db) r = r" if "r \<in> set ?rows" for r
  proof -
    from that members obtain t where r: "r = ?join t" and t: "tx_accountId t = accountId"
      by auto
    then have "find (\<lambda>a. acc_id a = tx_accountId r) (accounts db) = Some account"
      using by_id by simp
    then have "enrich (accounts db) r = r\<lparr>accountType := Some (acc_accountType account)\<rparr>"
      by (rule enrich_joined)
    also have "\<dots> = r"
      using r by (simp add: transaction_row.extend_def joined_row.fields_def)
    finally show ?thesis .
  qed
  then have enriched: "map (enrich (accounts db)) ?rows = ?rows"
    by (simp add: map_idI)
  have result: "getTransactions db ctx accountId = (Inr ?rows, db)"
    using assms(1,2) joined enriched by (simp add: getTransactions_def)
  have "mset (map transaction_row.truncate ?rows)
          = image_mset transaction_row.truncate (mset (map ?join ?own))"
    by (simp add: orderBy_desc_mset)
  also have "\<dots> = mset (map (\<lambda>t. transaction_row.truncate (?join t)) ?own)"
    by (simp add: comp_def multiset.map_comp)
  also have "\<dots> = mset ?own"
    by simp
  finally have exact: "mset (map transaction_row.truncate ?rows) = mset ?own" .
  have "distinct (map tx_id ?own)"
    using assms(4) by (rule distinct_map_filter)
  then have "distinct (map tx_id (map ?join ?own))"
    by (simp add: comp_def)
  then have ordered: "sorted_wrt (\<lambda>r r'. tx_createdAt r > tx_createdAt r'
                               \<or> (tx_createdAt r = tx_createdAt r' \<and> tx_id r > tx_id r')) ?rows"
    by (rule orderBy_desc_sorted)
  have typed: "\<forall>r \<in> set ?rows. accountType r = Some (acc_accountType account)"
    using members by auto
  from result exact ordered typed show ?thesis by blast
qed

theorem getTransactions_newest_first_witness:
  "getTransactions bank_db as_alice 1
     = (Inr [transaction_row.extend (deposit 4 1 50 30) (joined_row.fields (Some checking)),
             transaction_row.extend (deposit 3 1 40 30) (joined_row.fields (Some checking)),
             transaction_row.extend (deposit 1 1 10 20) (joined_row.fields (Some checking))],
        bank_db)
   \<and> distinct (map acc_id (accounts bank_db)) \<and> distinct (map tx_id (transactions bank_db))
   \<and> (\<exists>rows. getTransactions bank_db as_alice 1 = (Inr rows, bank_db)
         \<and> mset (map transaction_row.truncate rows)
             = mset (filter (\<lambda>t. tx_accountId t = 1) (transactions bank_db))
         \<and> sorted_wrt (\<lambda>r r'. tx_createdAt r > tx_createdAt r'
                             \<or> (tx_createdAt r = tx_createdAt r' \<and> tx_id r > tx_id r')) rows)"
proof -
  have auth: "ctx_user as_alice = Some alice"
    by (simp add: sample)
  have owned: "find (\<lambda>a. acc_id a = 1 \<and> acc_userId a = u_id alice) (accounts bank_db)
                 = Some alice_checking"
    by (simp add: sample)
  have keys: "distinct (map acc_id (accounts bank_db))"
    "distinct (map tx_id (transactions bank_db))"
    by (simp_all add: sample)
  have run: "getTransactions bank_db as_alice 1
     = (Inr [transaction_row.extend (deposit 4 1 50 30) (joined_row.fields (Some checking)),
             transaction_row.extend (deposit 3 1 40 30) (joined_row.fields (Some checking)),
             transaction_row.extend (deposit 1 1 10 20) (joined_row.fields (Some checking))],
        bank_db)"
    by (simp add: getTransactions_def leftJoin_def orderBy_desc_def enrich_def sample
          transaction_row.extend_def joined_row.fields_def less_eq_prod_def)
  from getTransactions_newest_first [OF auth owned keys] obtain rows where
    "getTransactions bank_db as_alice 1 = (Inr rows, bank_db)
         \<and> mset (map transaction_row.truncate rows)
             = mset (filter (\<lambda>t. tx_accountId t = 1) (transactions bank_db))
         \<and> sorted_wrt (\<lambda>r r'. tx_createdAt r > tx_createdAt r'
                             \<or> (tx_createdAt r = tx_createdAt r' \<and> tx_id r > tx_id r')) rows"
    by blast
  then have "\<exists>rows. getTransactions bank_db as_alice 1 = (Inr rows, bank_db)
         \<and> mset (map transaction_row.truncate rows)
             = mset (filter (\<lambda>t. tx_accountId t = 1) (transactions bank_db))
         \<and> sorted_wrt (\<lambda>r r'. tx_createdAt r > tx_createdAt r'
                             \<or> (tx_createdAt r = tx_createdAt r' \<and> tx_id r > tx_id r')) rows"
    by blast
  with run keys show ?thesis by blast
qed

end
